theory Spec2Isabelle
  imports Complex_Main
begin

section \<open>The megam interface of NLTK (nltk/classify/megam.py)\<close>

text \<open>
  The module has four functions: \<open>config_megam\<close> (locates the binary),
  \<open>write_megam_file\<close> (serialises training data), \<open>call_megam\<close> (runs the binary)
  and \<open>parse_megam_weights\<close> (reads the weights back). Every exception that the
  Python code can raise is a constructor of \<open>error\<close>; a function that can raise
  returns a sum whose left side is the error.
\<close>

datatype error =
    NumpyRequired        \<comment> \<open>ValueError('This function requires that numpy be installed')\<close>
  | NotExplicit          \<comment> \<open>AssertionError('non-explicit not supported yet')\<close>
  | DecodeError          \<comment> \<open>UnicodeDecodeError of \<open>s.decode('utf-8')\<close>\<close>
  | NegativeDimensions   \<comment> \<open>ValueError of \<open>numpy.zeros\<close> for a negative length\<close>
  | UnpackError          \<comment> \<open>ValueError of \<open>fid, weight = line.split()\<close>\<close>
  | FloatError           \<comment> \<open>ValueError of \<open>float(weight)\<close>\<close>
  | IntError             \<comment> \<open>ValueError of \<open>int(fid)\<close>\<close>
  | IndexError           \<comment> \<open>IndexError of \<open>weights[i] = x\<close>\<close>
  | NoAlwaysOn           \<comment> \<open>ValueError('MEGAM classifier requires the use of an always-on feature.')\<close>
  | NotBinary            \<comment> \<open>ValueError('If bernoulli=True, then allfeatures must be binary.')\<close>
  | KeyError             \<comment> \<open>KeyError of \<open>labelnum[label]\<close>\<close>
  | TypeError            \<comment> \<open>TypeError('args should be a list of strings')\<close>
  | LookupError          \<comment> \<open>LookupError of \<open>find_binary\<close>\<close>
  | OSError              \<comment> \<open>OSError('megam command failed!'), or OSError of \<open>Popen\<close>\<close>

subsection \<open>Text: decoding, whitespace, splitting\<close>

text \<open>
  A byte string is a \<open>string\<close> (a list of 8-bit characters). A decoded Python
  string is the list of its Unicode code points.
\<close>

type_synonym ustring = "nat list"

definition ustr :: "string \<Rightarrow> ustring" where
  "ustr s = map of_char s"

definition is_cont :: "nat \<Rightarrow> bool" where
  "is_cont b = (128 \<le> b \<and> b \<le> 191)"

text \<open>
  \<open>bytes.decode('utf-8')\<close> with the default strict error handling: shortest form
  only, no surrogates, nothing above U+10FFFF. \<open>None\<close> is UnicodeDecodeError.
\<close>

fun utf8 :: "nat list \<Rightarrow> ustring option" where
  "utf8 [] = Some []"
| "utf8 (b # bs) =
     (if b < 128 then map_option ((#) b) (utf8 bs)
      else if 194 \<le> b \<and> b \<le> 223 then
        (case bs of
           b1 # r \<Rightarrow>
             if is_cont b1
             then map_option ((#) ((b - 192) * 64 + (b1 - 128))) (utf8 r)
             else None
         | _ \<Rightarrow> None)
      else if 224 \<le> b \<and> b \<le> 239 then
        (case bs of
           b1 # b2 # r \<Rightarrow>
             if is_cont b1 \<and> is_cont b2
                \<and> (b = 224 \<longrightarrow> 160 \<le> b1) \<and> (b = 237 \<longrightarrow> b1 \<le> 159)
             then map_option ((#) ((b - 224) * 4096 + (b1 - 128) * 64 + (b2 - 128))) (utf8 r)
             else None
         | _ \<Rightarrow> None)
      else if 240 \<le> b \<and> b \<le> 244 then
        (case bs of
           b1 # b2 # b3 # r \<Rightarrow>
             if is_cont b1 \<and> is_cont b2 \<and> is_cont b3
                \<and> (b = 240 \<longrightarrow> 144 \<le> b1) \<and> (b = 244 \<longrightarrow> b1 \<le> 143)
             then map_option
                    ((#) ((b - 240) * 262144 + (b1 - 128) * 4096 + (b2 - 128) * 64 + (b3 - 128)))
                    (utf8 r)
             else None
         | _ \<Rightarrow> None)
      else None)"

definition decode_utf8 :: "string \<Rightarrow> ustring option" where
  "decode_utf8 s = utf8 (map of_char s)"

text \<open>
  The code points that \<open>str.strip()\<close>, \<open>str.split()\<close> and \<open>str.isspace()\<close> of
  Python 3 treat as whitespace.
\<close>

definition is_space :: "nat \<Rightarrow> bool" where
  "is_space c =
     ((9 \<le> c \<and> c \<le> 13) \<or> (28 \<le> c \<and> c \<le> 32) \<or> c = 133 \<or> c = 160 \<or> c = 5760
      \<or> (8192 \<le> c \<and> c \<le> 8202) \<or> c = 8232 \<or> c = 8233 \<or> c = 8239 \<or> c = 8287
      \<or> c = 12288)"

text \<open>\<open>t.strip()\<close>\<close>

definition strip :: "ustring \<Rightarrow> ustring" where
  "strip t = rev (dropWhile is_space (rev (dropWhile is_space t)))"

text \<open>\<open>t.split(sep)\<close> for a separator of one character: never an empty list.\<close>

fun split_on :: "nat \<Rightarrow> ustring \<Rightarrow> ustring list" where
  "split_on sep [] = [[]]"
| "split_on sep (c # cs) =
     (if c = sep then [] # split_on sep cs
      else (case split_on sep cs of
              l # ls \<Rightarrow> (c # l) # ls
            | [] \<Rightarrow> [[c]]))"

text \<open>
  \<open>t.split()\<close>: the maximal runs of non-whitespace, in order. \<open>cur\<close> is the run
  being read, reversed.
\<close>

fun split_ws_from :: "ustring \<Rightarrow> ustring \<Rightarrow> ustring list" where
  "split_ws_from cur [] = (if cur = [] then [] else [rev cur])"
| "split_ws_from cur (c # cs) =
     (if is_space c
      then (if cur = [] then split_ws_from [] cs else rev cur # split_ws_from [] cs)
      else split_ws_from (c # cur) cs)"

definition split_ws :: "ustring \<Rightarrow> ustring list" where
  "split_ws t = split_ws_from [] t"

subsection \<open>parse_megam_weights\<close>

text \<open>
  \<open>weights[i] = x\<close> on a one-dimensional numpy array: a negative index counts from
  the end, anything outside \<open>-n \<le> i < n\<close> is IndexError.
\<close>

definition setitem :: "'w list \<Rightarrow> int \<Rightarrow> 'w \<Rightarrow> error + 'w list" where
  "setitem weights i x =
     (let n = int (length weights); j = (if i < 0 then i + n else i)
      in if 0 \<le> j \<and> j < n then Inr (weights[nat j := x]) else Inl IndexError)"

text \<open>
  The loop \<open>for line in lines\<close>. The built-in conversions \<open>int()\<close> and \<open>float()\<close>
  are the parameters \<open>py_int\<close> and \<open>py_float\<close> (\<open>None\<close> is their ValueError); the
  type \<open>'w\<close> is the type of the array's entries. In
  \<open>weights[int(fid)] = float(weight)\<close> Python evaluates the right-hand side first.
\<close>

fun parse_lines ::
  "(ustring \<Rightarrow> int option) \<Rightarrow> (ustring \<Rightarrow> 'w option) \<Rightarrow> ustring list \<Rightarrow> 'w list \<Rightarrow> error + 'w list"
where
  "parse_lines py_int py_float [] weights = Inr weights"
| "parse_lines py_int py_float (line # lines) weights =
     (if strip line \<noteq> [] then
        (case split_ws line of
           [fid, weight] \<Rightarrow>
             (case py_float weight of
                None \<Rightarrow> Inl FloatError
              | Some x \<Rightarrow>
                 (case py_int fid of
                    None \<Rightarrow> Inl IntError
                  | Some i \<Rightarrow>
                     (case setitem weights i x of
                        Inl e \<Rightarrow> Inl e
                      | Inr weights' \<Rightarrow> parse_lines py_int py_float lines weights')))
         | _ \<Rightarrow> Inl UnpackError)
      else parse_lines py_int py_float lines weights)"

text \<open>
  \<open>numpy\<close> says whether the import of numpy succeeded (the module-level
  \<open>numpy\<close> is not \<open>None\<close>).
\<close>

definition parse_megam_weights ::
  "(ustring \<Rightarrow> int option) \<Rightarrow> (ustring \<Rightarrow> 'w option) \<Rightarrow> bool \<Rightarrow> string \<Rightarrow> int \<Rightarrow> bool
     \<Rightarrow> error + ('w::zero) list"
where
  "parse_megam_weights py_int py_float numpy s features_count explicit =
     (if \<not> numpy then Inl NumpyRequired
      else if \<not> explicit then Inl NotExplicit
      else (case decode_utf8 s of
              None \<Rightarrow> Inl DecodeError
            | Some t \<Rightarrow>
                (let lines = split_on 10 (strip t)
                 in if features_count < 0 then Inl NegativeDimensions
                    else parse_lines py_int py_float lines
                           (replicate (nat features_count) 0))))"

subsection \<open>Decimal numerals\<close>

text \<open>
  \<open>int(t)\<close> for a token \<open>t\<close> of ASCII characters that is an optional sign followed
  by decimal digits; every other token is rejected. It instantiates \<open>py_int\<close> in the
  examples below.
\<close>

definition is_digit :: "nat \<Rightarrow> bool" where
  "is_digit c = (48 \<le> c \<and> c \<le> 57)"

definition decimal :: "nat list \<Rightarrow> nat option" where
  "decimal ds =
     (if ds \<noteq> [] \<and> list_all is_digit ds
      then Some (foldl (\<lambda>a d. 10 * a + (d - 48)) 0 ds)
      else None)"

definition ascii_int :: "ustring \<Rightarrow> int option" where
  "ascii_int t =
     (case t of
        [] \<Rightarrow> None
      | c # cs \<Rightarrow>
          if c = 45 then map_option (\<lambda>n. - int n) (decimal cs)
          else if c = 43 then map_option int (decimal cs)
          else map_option int (decimal t))"

text \<open>
  \<open>float(t)\<close> on the three tokens that the examples below use; their values are
  binary fractions, which \<open>float()\<close> returns exactly.
\<close>

definition float_table :: "ustring \<Rightarrow> real option" where
  "float_table t =
     (if t = ustr ''0.5'' then Some (1 / 2)
      else if t = ustr ''2'' then Some 2
      else if t = ustr ''-1.25'' then Some (- (5 / 4))
      else None)"

subsection \<open>What the output of megam says, line by line\<close>

text \<open>
  A line is well formed for a vector of length \<open>n\<close> when it is blank, or has exactly
  two tokens: an integer \<open>0 \<le> i < n\<close> and a floating-point weight.
\<close>

definition well_formed_line ::
  "(ustring \<Rightarrow> int option) \<Rightarrow> (ustring \<Rightarrow> 'w option) \<Rightarrow> int \<Rightarrow> ustring \<Rightarrow> bool"
where
  "well_formed_line py_int py_float n l =
     (strip l = [] \<or>
      (case split_ws l of
         [f, w] \<Rightarrow>
           (case py_int f of
              Some i \<Rightarrow>
                0 \<le> i \<and> i < n \<and> (case py_float w of Some x \<Rightarrow> True | None \<Rightarrow> False)
            | None \<Rightarrow> False)
       | _ \<Rightarrow> False))"

text \<open>The (feature-id, weight) pairs that the non-blank lines name, in order.\<close>

definition named_weights ::
  "(ustring \<Rightarrow> int option) \<Rightarrow> (ustring \<Rightarrow> 'w option) \<Rightarrow> ustring list \<Rightarrow> (int \<times> 'w) list"
where
  "named_weights py_int py_float lines =
     concat (map (\<lambda>l. case split_ws l of
                         [f, w] \<Rightarrow>
                           (case (py_int f, py_float w) of
                              (Some i, Some x) \<Rightarrow> [(i, x)]
                            | _ \<Rightarrow> [])
                       | _ \<Rightarrow> [])
                 (filter (\<lambda>l. strip l \<noteq> []) lines))"

text \<open>The last weight that the lines give for position \<open>j\<close>, zero when there is none.\<close>

definition last_weight ::
  "(ustring \<Rightarrow> int option) \<Rightarrow> (ustring \<Rightarrow> 'w option) \<Rightarrow> ustring list \<Rightarrow> nat \<Rightarrow> 'w::zero"
where
  "last_weight py_int py_float lines j =
     (case map_of (rev (named_weights py_int py_float lines)) (int j) of
        Some x \<Rightarrow> x
      | None \<Rightarrow> 0)"

text \<open>
  A line that stops the parse of a vector of length \<open>n\<close>: it is not blank, and it
  does not have exactly two tokens, or a token is not numeric, or the feature-id
  is not an index that numpy accepts (\<open>-n \<le> i < n\<close>).
\<close>

definition fatal_line ::
  "(ustring \<Rightarrow> int option) \<Rightarrow> (ustring \<Rightarrow> 'w option) \<Rightarrow> int \<Rightarrow> ustring \<Rightarrow> bool"
where
  "fatal_line py_int py_float n l =
     (strip l \<noteq> [] \<and>
      (case split_ws l of
         [f, w] \<Rightarrow>
           (case py_float w of
              None \<Rightarrow> True
            | Some x \<Rightarrow> (case py_int f of None \<Rightarrow> True | Some i \<Rightarrow> i < - n \<or> n \<le> i))
       | _ \<Rightarrow> True))"

text \<open>
  The same with the range of the specification, \<open>0 \<le> i < n\<close>: the feature-id is
  taken as invalid when \<open>i < 0\<close> or \<open>n \<le> i\<close>.
\<close>

definition spec_fatal_line ::
  "(ustring \<Rightarrow> int option) \<Rightarrow> (ustring \<Rightarrow> 'w option) \<Rightarrow> int \<Rightarrow> ustring \<Rightarrow> bool"
where
  "spec_fatal_line py_int py_float n l =
     (strip l \<noteq> [] \<and>
      (case split_ws l of
         [f, w] \<Rightarrow>
           (case py_float w of
              None \<Rightarrow> True
            | Some x \<Rightarrow> (case py_int f of None \<Rightarrow> True | Some i \<Rightarrow> i < 0 \<or> n \<le> i))
       | _ \<Rightarrow> True))"

text \<open>
  The position that numpy addresses with the index \<open>i\<close> in a vector of length \<open>n\<close>:
  an index below zero counts from the end.
\<close>

definition numpy_position :: "int \<Rightarrow> int \<Rightarrow> int" where
  "numpy_position n i = (if i < 0 then n + i else i)"

text \<open>
  The last weight that the lines give for the position \<open>j\<close> of a vector of length
  \<open>n\<close>, each feature-id taken at the position it addresses; zero when no line
  addresses \<open>j\<close>.
\<close>

definition addressed_weight ::
  "(ustring \<Rightarrow> int option) \<Rightarrow> (ustring \<Rightarrow> 'w option) \<Rightarrow> int \<Rightarrow> ustring list \<Rightarrow> nat
     \<Rightarrow> 'w::zero"
where
  "addressed_weight py_int py_float n lines j =
     (case map_of (rev (map (\<lambda>(i, x). (numpy_position n i, x))
                          (named_weights py_int py_float lines))) (int j) of
        Some x \<Rightarrow> x
      | None \<Rightarrow> 0)"

subsection \<open>write_megam_file\<close>

text \<open>
  A feature encoding: \<open>labels\<close> is \<open>encoding.labels()\<close>, \<open>encode\<close> is
  \<open>encoding.encode(featureset, label)\<close>, and \<open>cost\<close> is \<open>Some\<close> of the method
  \<open>encoding.cost(featureset, label, l)\<close> exactly when \<open>hasattr(encoding, 'cost')\<close>.
\<close>

record ('fs, 'l, 'fid, 'v, 'c) encoding =
  labels :: "'l list"
  encode :: "'fs \<Rightarrow> 'l \<Rightarrow> ('fid \<times> 'v) list"
  cost :: "('fs \<Rightarrow> 'l \<Rightarrow> 'l \<Rightarrow> 'c) option"

text \<open>
  The text that Python's \<open>str()\<close> and \<open>'%s' %\<close> give for a feature-id, a feature
  value and a cost. In this part a Python \<open>str\<close> is the \<open>string\<close> of the bytes of its
  UTF-8 encoding, so that \<open>s.encode('utf-8')\<close> keeps the representation.
\<close>

record ('fid, 'v, 'c) py_str =
  str_fid :: "'fid \<Rightarrow> string"
  str_val :: "'v \<Rightarrow> string"
  str_cost :: "'c \<Rightarrow> string"

text \<open>
  What a stream has received: each call of its \<open>write\<close> adds one chunk, a \<open>str\<close> or,
  through the \<open>BytesWriter\<close> that \<open>bin_stream\<close> puts around the stream, \<open>bytes\<close>.
\<close>

datatype chunk = Str string | Bytes string

record stream =
  bytes_writer :: bool
  written :: "chunk list"

definition stream_write :: "stream \<Rightarrow> string \<Rightarrow> stream" where
  "stream_write st s = st\<lparr>written := written st @ [if bytes_writer st then Bytes s else Str s]\<rparr>"

text \<open>\<open>'%d' % n\<close> for \<open>n \<ge> 0\<close>\<close>

definition digit_char :: "nat \<Rightarrow> char" where
  "digit_char d = ''0123456789'' ! d"

fun str_nat :: "nat \<Rightarrow> string" where
  "str_nat n =
     (if n < 10 then [digit_char n]
      else str_nat (n div 10) @ [digit_char (n mod 10)])"

declare str_nat.simps [simp del]

text \<open>\<open>sep.join(xs)\<close>\<close>

fun join :: "string \<Rightarrow> string list \<Rightarrow> string" where
  "join sep [] = []"
| "join sep [x] = x"
| "join sep (x # y # ys) = x @ sep @ join sep (y # ys)"

text \<open>
  \<open>dict([(label, i) for (i, label) in enumerate(labels)])\<close>: the pairs enter the
  dictionary in order, a later one replaces an earlier one with the same key.
\<close>

definition labelnum_of :: "'l list \<Rightarrow> ('l \<rightharpoonup> nat)" where
  "labelnum_of ls =
     fold (\<lambda>(label, i) d. d(label \<mapsto> i))
       (map (\<lambda>(i, label). (label, i)) (enumerate 0 ls)) Map.empty"

text \<open>
  The loop \<open>for (fid, fval) in vector\<close> of \<open>_write_megam_features\<close>. The second
  component of the result is the exception raised, if any; the stream is as the
  exception leaves it. Python's \<open>fval == 1\<close> and \<open>fval != 0\<close> compare numbers.
\<close>

fun write_features ::
  "('fid, 'v::{zero,one}, 'c) py_str \<Rightarrow> ('fid \<times> 'v) list \<Rightarrow> stream \<Rightarrow> bool
     \<Rightarrow> stream \<times> error option"
where
  "write_features fmt [] stream bernoulli = (stream, None)"
| "write_features fmt ((fid, fval) # vector) stream bernoulli =
     (if bernoulli then
        (if fval = 1 then
           write_features fmt vector (stream_write stream ('' '' @ str_fid fmt fid)) bernoulli
         else if fval \<noteq> 0 then (stream, Some NotBinary)
         else write_features fmt vector stream bernoulli)
      else
        write_features fmt vector
          (stream_write stream ('' '' @ str_fid fmt fid @ '' '' @ str_val fmt fval)) bernoulli)"

definition write_megam_features ::
  "('fid, 'v::{zero,one}, 'c) py_str \<Rightarrow> ('fid \<times> 'v) list \<Rightarrow> stream \<Rightarrow> bool
     \<Rightarrow> stream \<times> error option"
where
  "write_megam_features fmt vector stream bernoulli =
     (if vector = [] then (stream, Some NoAlwaysOn)
      else write_features fmt vector stream bernoulli)"

text \<open>The loop \<open>for l in labels\<close> of the explicit format.\<close>

fun write_blocks ::
  "('fid, 'v::{zero,one}, 'c) py_str \<Rightarrow> ('fs, 'l, 'fid, 'v, 'c) encoding \<Rightarrow> 'fs \<Rightarrow> 'l list
     \<Rightarrow> stream \<Rightarrow> bool \<Rightarrow> stream \<times> error option"
where
  "write_blocks fmt encoding featureset [] stream bernoulli = (stream, None)"
| "write_blocks fmt encoding featureset (l # ls) stream bernoulli =
     (case write_megam_features fmt (encode encoding featureset l)
             (stream_write stream '' #'') bernoulli of
        (stream', Some e) \<Rightarrow> (stream', Some e)
      | (stream', None) \<Rightarrow> write_blocks fmt encoding featureset ls stream' bernoulli)"

text \<open>
  What the first \<open>stream.write\<close> of an instance is given: the costs of the labels,
  joined by colons, or the number of the label.
\<close>

definition instance_head ::
  "('fid, 'v, 'c) py_str \<Rightarrow> ('fs, 'l, 'fid, 'v, 'c) encoding \<Rightarrow> 'l list \<Rightarrow> ('l \<rightharpoonup> nat)
     \<Rightarrow> 'fs \<Rightarrow> 'l \<Rightarrow> error + string"
where
  "instance_head fmt encoding labels' labelnum featureset label =
     (case cost encoding of
        Some c \<Rightarrow> Inr (join '':'' (map (\<lambda>l. str_cost fmt (c featureset label l)) labels'))
      | None \<Rightarrow>
          (case labelnum label of
             None \<Rightarrow> Inl KeyError
           | Some i \<Rightarrow> Inr (str_nat i)))"

text \<open>The body of the loop \<open>for featureset, label in train_toks\<close>.\<close>

definition write_instance ::
  "('fid, 'v::{zero,one}, 'c) py_str \<Rightarrow> ('fs, 'l, 'fid, 'v, 'c) encoding \<Rightarrow> 'l list
     \<Rightarrow> ('l \<rightharpoonup> nat) \<Rightarrow> 'fs \<times> 'l \<Rightarrow> stream \<Rightarrow> bool \<Rightarrow> bool \<Rightarrow> stream \<times> error option"
where
  "write_instance fmt encoding labels' labelnum tok stream bernoulli explicit =
     (case tok of (featureset, label) \<Rightarrow>
        (case instance_head fmt encoding labels' labelnum featureset label of
           Inl e \<Rightarrow> (stream, Some e)
         | Inr h \<Rightarrow>
             (case (if \<not> explicit
                    then write_megam_features fmt (encode encoding featureset label)
                           (stream_write stream h) bernoulli
                    else write_blocks fmt encoding featureset labels' (stream_write stream h) bernoulli) of
                (stream', Some e) \<Rightarrow> (stream', Some e)
              | (stream', None) \<Rightarrow> (stream_write stream' ''\<newline>'', None))))"

fun write_instances ::
  "('fid, 'v::{zero,one}, 'c) py_str \<Rightarrow> ('fs, 'l, 'fid, 'v, 'c) encoding \<Rightarrow> 'l list
     \<Rightarrow> ('l \<rightharpoonup> nat) \<Rightarrow> ('fs \<times> 'l) list \<Rightarrow> stream \<Rightarrow> bool \<Rightarrow> bool
     \<Rightarrow> stream \<times> error option"
where
  "write_instances fmt encoding labels' labelnum [] stream bernoulli explicit = (stream, None)"
| "write_instances fmt encoding labels' labelnum (tok # toks) stream bernoulli explicit =
     (case write_instance fmt encoding labels' labelnum tok stream bernoulli explicit of
        (stream', Some e) \<Rightarrow> (stream', Some e)
      | (stream', None) \<Rightarrow>
          write_instances fmt encoding labels' labelnum toks stream' bernoulli explicit)"

definition write_megam_file ::
  "('fid, 'v::{zero,one}, 'c) py_str \<Rightarrow> ('fs \<times> 'l) list \<Rightarrow> ('fs, 'l, 'fid, 'v, 'c) encoding
     \<Rightarrow> stream \<Rightarrow> bool \<Rightarrow> bool \<Rightarrow> bool \<Rightarrow> stream \<times> error option"
where
  "write_megam_file fmt train_toks encoding stream bernoulli explicit bin_stream =
     (let labels' = labels encoding;
          labelnum = labelnum_of labels';
          stream = (if bin_stream then stream\<lparr>bytes_writer := True\<rparr> else stream)
      in write_instances fmt encoding labels' labelnum train_toks stream bernoulli explicit)"

subsection \<open>config_megam and call_megam\<close>

text \<open>
  What a standard stream of the process has received: a line that the process itself
  printed with \<open>print()\<close>, or text that a child process wrote to the stream it
  inherited.
\<close>

datatype emitted = Printed string | Inherited string

text \<open>
  The state that the two functions touch: the module variable \<open>_megam_bin\<close> and the
  standard output and standard error of the process. \<open>resolutions\<close> and \<open>spawned\<close>
  record the calls of \<open>find_binary\<close> (with their \<open>bin\<close> argument) and of
  \<open>subprocess.Popen\<close> (with their command).
\<close>

record world =
  megam_bin :: "string option"
  sys_stdout :: "emitted list"
  sys_stderr :: "emitted list"
  resolutions :: "string option list"
  spawned :: "string list list"

text \<open>
  \<open>config_megam(bin)\<close>. \<open>find_binary\<close> is \<open>nltk.internals.find_binary\<close> applied to
  the name, the environment variables, the binary names and the URL that the source
  fixes: it gives the lines that it prints to the standard output (such as
  \<open>[Found megam: ...]\<close>) and the path found, or the exception that it raises. The
  assignment to \<open>_megam_bin\<close> takes place only when it returns.
\<close>

definition config_megam ::
  "(string option \<Rightarrow> string list \<times> (error + string)) \<Rightarrow> string option \<Rightarrow> world
     \<Rightarrow> world \<times> (error + unit)"
where
  "config_megam find_binary bin w =
     (case find_binary bin of
        (printed, r) \<Rightarrow>
          (let w' = w\<lparr>sys_stdout := sys_stdout w @ map Printed printed,
                      resolutions := resolutions w @ [bin]\<rparr>
           in case r of
                Inl e \<Rightarrow> (w', Inl e)
              | Inr path \<Rightarrow> (w'\<lparr>megam_bin := Some path\<rparr>, Inr ())))"

text \<open>
  The argument of \<open>call_megam\<close>: a single string (an instance of
  \<open>compat.string_types\<close>) or a list of strings.
\<close>

datatype args = StrArg string | ListArg "string list"

text \<open>
  A child process that has run to its end: what it wrote to its standard output and
  to its standard error, and its exit code.
\<close>

record child =
  child_stdout :: string
  child_stderr :: string
  returncode :: int

text \<open>
  \<open>p.communicate()\<close> for \<open>p = subprocess.Popen(cmd, stdout=subprocess.PIPE)\<close>: only
  the standard output is a pipe, so the second component is \<open>None\<close>. The standard
  error of the child is the one of the caller, inherited: what the child writes there
  is not captured and reaches the error stream of the caller.
\<close>

definition communicate :: "child \<Rightarrow> string option \<times> string option" where
  "communicate p = (Some (child_stdout p), None)"

definition inherit_stderr :: "child \<Rightarrow> world \<Rightarrow> world" where
  "inherit_stderr p w = w\<lparr>sys_stderr := sys_stderr w @ [Inherited (child_stderr p)]\<rparr>"

text \<open>\<open>str(x)\<close> for \<open>x\<close> that is \<open>None\<close> or a string.\<close>

definition str_opt :: "string option \<Rightarrow> string" where
  "str_opt x = (case x of None \<Rightarrow> ''None'' | Some s \<Rightarrow> s)"

text \<open>\<open>print(line)\<close>\<close>

definition print :: "string \<Rightarrow> world \<Rightarrow> world" where
  "print line w = w\<lparr>sys_stdout := sys_stdout w @ [Printed line]\<rparr>"

text \<open>
  \<open>call_megam(args)\<close>. \<open>popen\<close> runs the command to its end, or raises when the
  command cannot be started.
\<close>

definition call_megam ::
  "(string option \<Rightarrow> string list \<times> (error + string)) \<Rightarrow> (string list \<Rightarrow> error + child)
     \<Rightarrow> args \<Rightarrow> world \<Rightarrow> world \<times> (error + string option)"
where
  "call_megam find_binary popen a w =
     (case a of
        StrArg s \<Rightarrow> (w, Inl TypeError)
      | ListArg as \<Rightarrow>
          (case (if megam_bin w = None then config_megam find_binary None w else (w, Inr ())) of
             (w1, Inl e) \<Rightarrow> (w1, Inl e)
           | (w1, Inr u) \<Rightarrow>
               (case megam_bin w1 of
                  None \<Rightarrow> (w1, Inl TypeError)
                | Some b \<Rightarrow>
                    (let cmd = b # as;
                         w2 = w1\<lparr>spawned := spawned w1 @ [cmd]\<rparr>
                     in case popen cmd of
                          Inl e \<Rightarrow> (w2, Inl e)
                        | Inr p \<Rightarrow>
                            (case communicate p of
                               (stdout, stderr) \<Rightarrow>
                                 (let w3 = inherit_stderr p w2
                                  in if returncode p \<noteq> 0
                                     then (print (str_opt stderr) (print [] w3), Inl OSError)
                                     else (w3, Inr stdout)))))))"

text \<open>An environment for the examples: the binary is found, the child fails.\<close>

definition example_world :: world where
  "example_world =
     \<lparr>megam_bin = Some ''/opt/megam'', sys_stdout = [], sys_stderr = [],
      resolutions = [], spawned = []\<rparr>"

definition example_find :: "string option \<Rightarrow> string list \<times> (error + string)" where
  "example_find bin =
     (case bin of
        None \<Rightarrow> ([''[Found megam: /usr/bin/megam]''], Inr ''/usr/bin/megam'')
      | Some path \<Rightarrow>
          if path = ''/opt/megam'' then ([''[Found megam: /opt/megam]''], Inr path)
          else ([], Inl LookupError))"

definition example_popen :: "string list \<Rightarrow> error + child" where
  "example_popen cmd =
     (if cmd = [''/opt/megam'', ''-bad'']
      then Inr \<lparr>child_stdout = ''partial'', child_stderr = ''boom'', returncode = 1\<rparr>
      else Inr \<lparr>child_stdout = ''0 0.5'', child_stderr = ''warning'', returncode = 0\<rparr>)"

subsection \<open>What the megam file holds\<close>

text \<open>The text of the chunks that a stream has received, in order.\<close>

fun payload :: "chunk \<Rightarrow> string" where
  "payload (Str s) = s"
| "payload (Bytes s) = s"

definition texts :: "stream \<Rightarrow> string list" where
  "texts st = map payload (written st)"

text \<open>
  The feature tokens of one block: in the bernoulli format the feature-ids with value
  1, otherwise every feature-id with its value.
\<close>

definition feature_block ::
  "('fid, 'v::{zero,one}, 'c) py_str \<Rightarrow> bool \<Rightarrow> ('fid \<times> 'v) list \<Rightarrow> string list"
where
  "feature_block fmt bernoulli vector =
     (if bernoulli
      then map (\<lambda>(fid, fval). '' '' @ str_fid fmt fid) (filter (\<lambda>(fid, fval). fval = 1) vector)
      else map (\<lambda>(fid, fval). '' '' @ str_fid fmt fid @ '' '' @ str_val fmt fval) vector)"

text \<open>
  The feature blocks of one training pair: in the explicit format one for every label
  of the encoding, in order, each behind the separator; otherwise the block of the
  pair's own label alone.
\<close>

definition instance_blocks ::
  "('fid, 'v::{zero,one}, 'c) py_str \<Rightarrow> ('fs, 'l, 'fid, 'v, 'c) encoding \<Rightarrow> bool \<Rightarrow> bool
     \<Rightarrow> 'fs \<times> 'l \<Rightarrow> string list list"
where
  "instance_blocks fmt encoding bernoulli explicit tok =
     (case tok of (featureset, label) \<Rightarrow>
        if explicit
        then map (\<lambda>l. '' #'' # feature_block fmt bernoulli (encode encoding featureset l))
               (labels encoding)
        else [feature_block fmt bernoulli (encode encoding featureset label)])"

text \<open>The first field of the line of a training pair (empty where there is none).\<close>

definition head_text ::
  "('fid, 'v, 'c) py_str \<Rightarrow> ('fs, 'l, 'fid, 'v, 'c) encoding \<Rightarrow> 'fs \<times> 'l \<Rightarrow> string"
where
  "head_text fmt encoding tok =
     (case tok of (featureset, label) \<Rightarrow>
        (case instance_head fmt encoding (labels encoding) (labelnum_of (labels encoding))
                featureset label of
           Inr h \<Rightarrow> h
         | Inl e \<Rightarrow> []))"

text \<open>The line of a training pair: its first field, its blocks, a newline.\<close>

definition instance_line ::
  "('fid, 'v::{zero,one}, 'c) py_str \<Rightarrow> ('fs, 'l, 'fid, 'v, 'c) encoding \<Rightarrow> bool \<Rightarrow> bool
     \<Rightarrow> 'fs \<times> 'l \<Rightarrow> string list"
where
  "instance_line fmt encoding bernoulli explicit tok =
     head_text fmt encoding tok
       # concat (instance_blocks fmt encoding bernoulli explicit tok) @ [''\<newline>'']"

subsection \<open>Which exception the writer raises\<close>

text \<open>The vectors that the writer encodes for one training pair, in order.\<close>

definition encoded_vectors ::
  "('fs, 'l, 'fid, 'v, 'c) encoding \<Rightarrow> bool \<Rightarrow> 'fs \<times> 'l \<Rightarrow> ('fid \<times> 'v) list list"
where
  "encoded_vectors encoding explicit tok =
     (case tok of (featureset, label) \<Rightarrow>
        if explicit then map (encode encoding featureset) (labels encoding)
        else [encode encoding featureset label])"

definition binary_vector :: "('fid \<times> 'v::{zero,one}) list \<Rightarrow> bool" where
  "binary_vector vector = list_all (\<lambda>(fid, fval). fval = 0 \<or> fval = 1) vector"

text \<open>The exception that one block raises.\<close>

definition block_error :: "bool \<Rightarrow> ('fid \<times> 'v::{zero,one}) list \<Rightarrow> error option" where
  "block_error bernoulli vector =
     (if vector = [] then Some NoAlwaysOn
      else if bernoulli \<and> \<not> binary_vector vector then Some NotBinary
      else None)"

text \<open>The exception that the first field raises.\<close>

definition head_error :: "('fs, 'l, 'fid, 'v, 'c) encoding \<Rightarrow> 'fs \<times> 'l \<Rightarrow> error option" where
  "head_error encoding tok =
     (case tok of (featureset, label) \<Rightarrow>
        (case cost encoding of
           Some c \<Rightarrow> None
         | None \<Rightarrow> if label \<in> set (labels encoding) then None else Some KeyError))"

definition instance_errors ::
  "('fs, 'l, 'fid, 'v::{zero,one}, 'c) encoding \<Rightarrow> bool \<Rightarrow> bool \<Rightarrow> 'fs \<times> 'l
     \<Rightarrow> error option list"
where
  "instance_errors encoding bernoulli explicit tok =
     head_error encoding tok # map (block_error bernoulli) (encoded_vectors encoding explicit tok)"

fun first_error :: "error option list \<Rightarrow> error option" where
  "first_error [] = None"
| "first_error (None # es) = first_error es"
| "first_error (Some e # es) = Some e"

subsection \<open>Reading the first field back\<close>

text \<open>
  The first whitespace-delimited token of a line of the megam file, and the number
  that it denotes.
\<close>

definition first_token :: "string \<Rightarrow> string" where
  "first_token s =
     takeWhile (\<lambda>c. \<not> is_space (of_char c)) (dropWhile (\<lambda>c. is_space (of_char c)) s)"

definition read_int :: "string \<Rightarrow> int option" where
  "read_int s = ascii_int (ustr s)"

subsection \<open>An encoding for the examples\<close>

text \<open>
  Two labels; a feature set is a number \<open>k\<close>. For the first label the vector is
  \<open>[(k, 1), (7, 0)]\<close>, for the second \<open>[(k + 1, 1)]\<close>, and for a feature set above 99
  it is broken: empty for the first label, with a value 2 for the second.
\<close>

definition example_encode :: "nat \<Rightarrow> string \<Rightarrow> (nat \<times> int) list" where
  "example_encode k l =
     (if l = ''a'' then (if k < 100 then [(k, 1), (7, 0)] else [])
      else (if k < 100 then [(k + 1, 1)] else [(k, 2)]))"

definition example_encoding :: "(nat, string, nat, int, nat) encoding" where
  "example_encoding = \<lparr>labels = [''a'', ''b''], encode = example_encode, cost = None\<rparr>"

definition example_cost_encoding :: "(nat, string, nat, int, nat) encoding" where
  "example_cost_encoding =
     \<lparr>labels = [''a'', ''b''], encode = example_encode,
      cost = Some (\<lambda>k label l. if label = l then 0 else k)\<rparr>"

definition example_str :: "(nat, int, nat) py_str" where
  "example_str =
     \<lparr>str_fid = str_nat,
      str_val = (\<lambda>v. if v < 0 then ''-'' @ str_nat (nat (- v)) else str_nat (nat v)),
      str_cost = str_nat\<rparr>"

definition empty_stream :: stream where
  "empty_stream = \<lparr>bytes_writer = False, written = []\<rparr>"

section \<open>Properties\<close>

subsection \<open>Evaluation on literals\<close>

lemma replicate_numeral: "replicate (numeral k) x = x # replicate (pred_numeral k) x"
  by (simp add: numeral_eq_Suc)

lemma list_update_numeral: "(x # xs)[numeral k := y] = x # xs[pred_numeral k := y]"
  by (simp add: numeral_eq_Suc)

lemmas text_eval = ustr_def decode_utf8_def is_cont_def is_space_def strip_def split_ws_def

lemmas num_eval = is_digit_def decimal_def ascii_int_def float_table_def

lemmas parse_eval = text_eval num_eval setitem_def parse_megam_weights_def
  replicate_numeral list_update_numeral

subsection \<open>Reading the weights\<close>

lemma setitem_in_range:
  "0 \<le> i \<Longrightarrow> i < int (length ws) \<Longrightarrow> setitem ws i x = Inr (ws[nat i := x])"
  by (simp add: setitem_def)

lemma named_weights_Nil: "named_weights py_int py_float [] = []"
  by (simp add: named_weights_def)

lemma named_weights_blank:
  "strip l = [] \<Longrightarrow> named_weights py_int py_float (l # ls) = named_weights py_int py_float ls"
  by (simp add: named_weights_def)

lemma named_weights_pair:
  "strip l \<noteq> [] \<Longrightarrow> split_ws l = [f, w] \<Longrightarrow> py_int f = Some i \<Longrightarrow> py_float w = Some x
     \<Longrightarrow> named_weights py_int py_float (l # ls) = (i, x) # named_weights py_int py_float ls"
  by (simp add: named_weights_def)

text \<open>
  The loop over well-formed lines never fails, keeps the length, and leaves in each
  position the last weight named for it, or what was there before.
\<close>

lemma parse_lines_well_formed:
  "list_all (well_formed_line py_int py_float n) ls \<Longrightarrow> int (length ws) = n \<Longrightarrow>
     \<exists>v. parse_lines py_int py_float ls ws = Inr v \<and> length v = length ws \<and>
         (\<forall>j < length ws. v ! j =
             (case map_of (rev (named_weights py_int py_float ls)) (int j) of
                Some x \<Rightarrow> x | None \<Rightarrow> ws ! j))"
proof (induction ls arbitrary: ws)
  case Nil
  then show ?case by (simp add: named_weights_Nil)
next
  case (Cons l ls)
  from Cons.prems have rest: "list_all (well_formed_line py_int py_float n) ls" by simp
  show ?case
  proof (cases "strip l = []")
    case True
    with Cons.IH [OF rest Cons.prems(2)] show ?thesis
      by (simp add: named_weights_blank)
  next
    case False
    with Cons.prems(1) obtain f w i x where
      tok: "split_ws l = [f, w]" and i: "py_int f = Some i" "0 \<le> i" "i < n"
      and x: "py_float w = Some x"
      by (auto simp: well_formed_line_def split: list.splits option.splits)
    let ?ws = "ws[nat i := x]"
    have set: "setitem ws i x = Inr ?ws"
      using i Cons.prems(2) by (simp add: setitem_in_range)
    have len: "int (length ?ws) = n" using Cons.prems(2) by simp
    from Cons.IH [OF rest len] obtain v where
      v: "parse_lines py_int py_float ls ?ws = Inr v" "length v = length ws"
         "\<forall>j < length ws. v ! j =
             (case map_of (rev (named_weights py_int py_float ls)) (int j) of
                Some y \<Rightarrow> y | None \<Rightarrow> ?ws ! j)"
      by auto
    have run: "parse_lines py_int py_float (l # ls) ws = Inr v"
      using False tok i(1) x set v(1) by simp
    have nw: "named_weights py_int py_float (l # ls) = (i, x) # named_weights py_int py_float ls"
      using False tok i(1) x by (rule named_weights_pair)
    have "v ! j = (case map_of (rev (named_weights py_int py_float (l # ls))) (int j) of
                Some y \<Rightarrow> y | None \<Rightarrow> ws ! j)" if j: "j < length ws" for j
    proof -
      have ij: "(int j = i) = (j = nat i)" using i(2) by auto
      show ?thesis
        using v(3) j ij by (auto simp: nw map_add_def split: option.splits)
    qed
    with run v(2) show ?thesis by blast
  qed
qed

lemma decode_3_05: "decode_utf8 ''3 0.5'' = Some (ustr ''3 0.5'')"
  by (simp add: text_eval)

lemma lines_3_05: "split_on 10 (strip (ustr ''3 0.5'')) = [ustr ''3 0.5'']"
  by (simp add: text_eval)

lemma tokens_3_05: "split_ws (ustr ''3 0.5'') = [ustr ''3'', ustr ''0.5'']"
  by (simp add: text_eval)

lemma strip_3_05: "strip (ustr ''3 0.5'') \<noteq> []"
  by (simp add: text_eval)

text \<open>
  Claim C1. When the output of megam decodes to blank lines and well-formed lines only
  (two tokens, an integer feature-id \<open>0 \<le> i < n\<close> and a floating-point weight),
  \<open>parse_megam_weights\<close> returns a vector of length \<open>n\<close> that holds, in each
  position, the last weight the output names for it, and zero where it names none.
  The single line \<open>3 0.5\<close> with \<open>n = 5\<close> gives the value of \<open>float('0.5')\<close> in
  position 3 and zero elsewhere; the empty output gives the zero vector of length \<open>n\<close>.
\<close>

theorem parse_megam_weights_well_formed:
  "(decode_utf8 s = Some t \<longrightarrow> 0 \<le> n \<longrightarrow>
      list_all (well_formed_line py_int py_float n) (split_on 10 (strip t)) \<longrightarrow>
      (\<exists>v. parse_megam_weights py_int py_float True s n True = Inr v \<and>
           length v = nat n \<and>
           (\<forall>j < nat n. v ! j = last_weight py_int py_float (split_on 10 (strip t)) j)))
   \<and> (py_int (ustr ''3'') = Some 3 \<longrightarrow> py_float (ustr ''0.5'') = Some x \<longrightarrow>
        parse_megam_weights py_int py_float True ''3 0.5'' 5 True = Inr [0, 0, 0, x, 0])
   \<and> (0 \<le> n \<longrightarrow>
        parse_megam_weights py_int py_float True [] n True = Inr (replicate (nat n) 0))"
proof (intro conjI impI)
  assume dec: "decode_utf8 s = Some t" and n: "0 \<le> n"
    and wf: "list_all (well_formed_line py_int py_float n) (split_on 10 (strip t))"
  have len: "int (length (replicate (nat n) (0::'a))) = n" using n by simp
  from parse_lines_well_formed [OF wf len] obtain v where
    v: "parse_lines py_int py_float (split_on 10 (strip t)) (replicate (nat n) 0) = Inr v"
       "length v = nat n"
       "\<forall>j < nat n. v ! j =
          (case map_of (rev (named_weights py_int py_float (split_on 10 (strip t)))) (int j) of
             Some x \<Rightarrow> x | None \<Rightarrow> replicate (nat n) 0 ! j)"
    by auto
  have run: "parse_megam_weights py_int py_float True s n True = Inr v"
    using dec n v(1) by (simp add: parse_megam_weights_def)
  have "v ! j = last_weight py_int py_float (split_on 10 (strip t)) j" if "j < nat n" for j
    using v(3) that by (simp add: last_weight_def split: option.splits)
  with run v(2)
  show "\<exists>v. parse_megam_weights py_int py_float True s n True = Inr v \<and>
           length v = nat n \<and>
           (\<forall>j < nat n. v ! j = last_weight py_int py_float (split_on 10 (strip t)) j)"
    by blast
next
  assume i: "py_int (ustr ''3'') = Some 3" and x: "py_float (ustr ''0.5'') = Some x"
  have five: "(replicate 5 (0::'a))[3 := x] = [0, 0, 0, x, 0]"
    by (simp add: replicate_numeral list_update_numeral)
  show "parse_megam_weights py_int py_float True ''3 0.5'' 5 True = Inr [0, 0, 0, x, 0]"
    using i x strip_3_05
    by (simp add: parse_megam_weights_def decode_3_05 lines_3_05 tokens_3_05 five setitem_def)
next
  assume "0 \<le> n"
  then show "parse_megam_weights py_int py_float True [] n True = Inr (replicate (nat n) 0)"
    by (simp add: parse_megam_weights_def decode_utf8_def strip_def)
qed

theorem parse_megam_weights_well_formed_witness:
  "decode_utf8 ''1 0.5\<newline>\<newline> 3  2 \<newline>1 -1.25\<newline>''
     = Some (ustr ''1 0.5\<newline>\<newline> 3  2 \<newline>1 -1.25\<newline>'')
   \<and> list_all (well_formed_line ascii_int float_table 5)
        (split_on 10 (strip (ustr ''1 0.5\<newline>\<newline> 3  2 \<newline>1 -1.25\<newline>'')))
   \<and> parse_megam_weights ascii_int float_table True
        ''1 0.5\<newline>\<newline> 3  2 \<newline>1 -1.25\<newline>'' 5 True
        = Inr [0, - (5 / 4), 0, 2, 0]
   \<and> map (last_weight ascii_int float_table
             (split_on 10 (strip (ustr ''1 0.5\<newline>\<newline> 3  2 \<newline>1 -1.25\<newline>''))))
        [0, 1, 2, 3, 4]
       = [0, - (5 / 4), 0, 2, 0]
   \<and> parse_megam_weights ascii_int float_table True ''3 0.5'' 5 True = Inr [0, 0, 0, 1 / 2, 0]
   \<and> parse_megam_weights ascii_int float_table True [] 5 True = Inr [0, 0, 0, 0, 0]"
proof -
  let ?s = "''1 0.5\<newline>\<newline> 3  2 \<newline>1 -1.25\<newline>''"
  have dec: "decode_utf8 ?s = Some (ustr ?s)"
    by (simp add: text_eval)
  have wf: "list_all (well_formed_line ascii_int float_table 5) (split_on 10 (strip (ustr ?s)))"
    by (simp add: parse_eval well_formed_line_def)
  have run: "parse_megam_weights ascii_int float_table True ?s 5 True
      = Inr [0, - (5 / 4), 0, 2, 0]"
    by (simp add: parse_eval)
  have i3: "ascii_int (ustr ''3'') = Some 3"
    by (simp add: parse_eval)
  have x: "float_table (ustr ''0.5'') = Some (1 / 2)"
    by (simp add: parse_eval)
  note inst = parse_megam_weights_well_formed
      [of ?s "ustr ?s" 5 ascii_int float_table "1 / 2"]
  from inst dec wf obtain v where
    v: "parse_megam_weights ascii_int float_table True ?s 5 True = Inr v"
       "\<forall>j < nat 5. v ! j
          = last_weight ascii_int float_table (split_on 10 (strip (ustr ?s))) j"
    by auto
  from v(1) run have "v = [0, - (5 / 4), 0, 2, 0]" by simp
  with v(2) have "\<forall>j < 5. last_weight ascii_int float_table (split_on 10 (strip (ustr ?s))) j
         = [0, - (5 / 4), 0, 2, 0] ! j"
    by simp
  then have a: "map (last_weight ascii_int float_table (split_on 10 (strip (ustr ?s))))
        [0, 1, 2, 3, 4] = [0, - (5 / 4), 0, 2, 0]"
    by simp
  from inst i3 x have b: "parse_megam_weights ascii_int float_table True ''3 0.5'' 5 True
      = Inr [0, 0, 0, 1 / 2, 0]" by simp
  from inst have c: "parse_megam_weights ascii_int float_table True [] 5 True
      = Inr [0, 0, 0, 0, 0]"
    by (simp add: replicate_numeral)
  from dec wf run a b c show ?thesis by blast
qed

subsection \<open>When reading the weights fails\<close>

lemma setitem_length: "setitem ws i x = Inr ws' \<Longrightarrow> length ws' = length ws"
  by (auto simp: setitem_def Let_def split: if_splits)

lemma setitem_fails:
  "(\<exists>e. setitem ws i x = Inl e) = (i < - int (length ws) \<or> int (length ws) \<le> i)"
  by (auto simp: setitem_def Let_def)

lemma setitem_out_of_range:
  "i < - int (length ws) \<or> int (length ws) \<le> i \<Longrightarrow> setitem ws i x = Inl IndexError"
  by (auto simp: setitem_def Let_def)

text \<open>The loop raises exactly when one of the lines is fatal.\<close>

lemma parse_lines_fails:
  "int (length ws) = n \<Longrightarrow>
     (\<exists>e. parse_lines py_int py_float ls ws = Inl e)
       = (\<exists>l \<in> set ls. fatal_line py_int py_float n l)"
proof (induction ls arbitrary: ws)
  case Nil
  then show ?case by simp
next
  case (Cons l ls)
  show ?case
  proof (cases "fatal_line py_int py_float n l")
    case True
    then have "\<exists>e. parse_lines py_int py_float (l # ls) ws = Inl e"
      using Cons.prems
      by (auto simp: fatal_line_def setitem_out_of_range split: list.splits option.splits)
    with True show ?thesis by simp
  next
    case False
    show ?thesis
    proof (cases "strip l = []")
      case True
      with False Cons.IH [OF Cons.prems] show ?thesis by simp
    next
      case nonblank: False
      with False obtain f w i x where
        tok: "split_ws l = [f, w]" and x: "py_float w = Some x" and i: "py_int f = Some i"
        and rng: "- n \<le> i" "i < n"
        by (auto simp: fatal_line_def split: list.splits option.splits)
      from rng Cons.prems setitem_fails [of ws i x] obtain ws' where
        set: "setitem ws i x = Inr ws'"
        by (cases "setitem ws i x") auto
      have len: "int (length ws') = n"
        using setitem_length [OF set] Cons.prems by simp
      have step: "parse_lines py_int py_float (l # ls) ws = parse_lines py_int py_float ls ws'"
        using nonblank tok x i set by simp
      from Cons.IH [OF len] False step show ?thesis by simp
    qed
  qed
qed

text \<open>
  The loop over lines none of which is fatal returns, keeps the length, and leaves in
  each position the last weight addressed to it, or what was there before.
\<close>

lemma setitem_accepted:
  "- int (length ws) \<le> i \<Longrightarrow> i < int (length ws) \<Longrightarrow>
     setitem ws i x = Inr (ws[nat (numpy_position (int (length ws)) i) := x])"
  by (auto simp: setitem_def numpy_position_def Let_def add.commute)

lemma parse_lines_accepted:
  "\<forall>l \<in> set ls. \<not> fatal_line py_int py_float n l \<Longrightarrow> int (length ws) = n \<Longrightarrow>
     \<exists>v. parse_lines py_int py_float ls ws = Inr v \<and> length v = length ws \<and>
         (\<forall>j < length ws. v ! j =
             (case map_of (rev (map (\<lambda>(i, x). (numpy_position n i, x))
                                  (named_weights py_int py_float ls))) (int j) of
                Some x \<Rightarrow> x | None \<Rightarrow> ws ! j))"
proof (induction ls arbitrary: ws)
  case Nil
  then show ?case by (simp add: named_weights_Nil)
next
  case (Cons l ls)
  from Cons.prems have rest: "\<forall>l \<in> set ls. \<not> fatal_line py_int py_float n l"
    and this_line: "\<not> fatal_line py_int py_float n l" by simp_all
  show ?case
  proof (cases "strip l = []")
    case True
    with Cons.IH [OF rest Cons.prems(2)] show ?thesis
      by (simp add: named_weights_blank)
  next
    case False
    with this_line obtain f w i x where
      tok: "split_ws l = [f, w]" and x: "py_float w = Some x" and i: "py_int f = Some i"
      and rng: "- n \<le> i" "i < n"
      by (auto simp: fatal_line_def split: list.splits option.splits)
    let ?p = "numpy_position n i"
    let ?ws = "ws[nat ?p := x]"
    have p: "0 \<le> ?p" "?p < n"
      using rng by (auto simp: numpy_position_def)
    have set: "setitem ws i x = Inr ?ws"
      using rng Cons.prems(2) setitem_accepted [of ws i x] by simp
    have len: "int (length ?ws) = n" using Cons.prems(2) by simp
    from Cons.IH [OF rest len] obtain v where
      v: "parse_lines py_int py_float ls ?ws = Inr v" "length v = length ws"
         "\<forall>j < length ws. v ! j =
             (case map_of (rev (map (\<lambda>(i, x). (numpy_position n i, x))
                                  (named_weights py_int py_float ls))) (int j) of
                Some y \<Rightarrow> y | None \<Rightarrow> ?ws ! j)"
      by auto
    have run: "parse_lines py_int py_float (l # ls) ws = Inr v"
      using False tok i x set v(1) by simp
    have nw: "named_weights py_int py_float (l # ls) = (i, x) # named_weights py_int py_float ls"
      using False tok i x by (rule named_weights_pair)
    have "v ! j = (case map_of (rev (map (\<lambda>(i, x). (numpy_position n i, x))
                                  (named_weights py_int py_float (l # ls)))) (int j) of
                Some y \<Rightarrow> y | None \<Rightarrow> ws ! j)" if j: "j < length ws" for j
    proof -
      have ij: "(int j = ?p) = (j = nat ?p)" using p(1) by auto
      show ?thesis
        using v(3) j ij by (auto simp: nw map_add_def split: option.splits)
    qed
    with run v(2) show ?thesis by blast
  qed
qed

text \<open>
  Claim C6, as stated, fails: the line \<open>-1 0.5\<close> names a feature-id below zero, and
  for a vector of length 5 the parse returns a vector, with the weight in the last
  position.
\<close>

theorem parse_megam_weights_negative_id_counterexample:
  "decode_utf8 ''-1 0.5'' = Some (ustr ''-1 0.5'')
   \<and> ustr ''-1 0.5'' \<in> set (split_on 10 (strip (ustr ''-1 0.5'')))
   \<and> spec_fatal_line ascii_int float_table 5 (ustr ''-1 0.5'')
   \<and> parse_megam_weights ascii_int float_table True ''-1 0.5'' 5 True
       = Inr [0, 0, 0, 0, 1 / 2]"
  by (simp add: parse_eval spec_fatal_line_def)

text \<open>
  Claim C6, amended. \<open>parse_megam_weights\<close> raises, and so returns no vector, for
  every input that contains a non-blank line whose token count is not two, whose
  fields are not numeric, or whose feature-id \<open>i\<close> has \<open>i < -n\<close> or \<open>n \<le> i\<close>; a
  feature-id \<open>-n \<le> i < 0\<close> is accepted and addresses position \<open>n + i\<close>. With numpy
  present, \<open>explicit\<close> true and \<open>0 \<le> n\<close>, these are the only inputs that decode and
  make it raise; on every other input that decodes, the parse returns the vector of
  length \<open>n\<close> that holds in each position the last weight addressed to it, a
  feature-id \<open>i < 0\<close> addressing position \<open>n + i\<close>, and zero where no line addresses
  the position.
\<close>

theorem parse_megam_weights_fatal:
  "(decode_utf8 s = Some t \<longrightarrow>
      (\<exists>l \<in> set (split_on 10 (strip t)). fatal_line py_int py_float n l) \<longrightarrow>
      (\<exists>e. parse_megam_weights py_int py_float numpy s n explicit = Inl e))
   \<and> (decode_utf8 s = Some t \<longrightarrow> 0 \<le> n \<longrightarrow>
      (\<exists>e. parse_megam_weights py_int py_float True s n True = Inl e)
        = (\<exists>l \<in> set (split_on 10 (strip t)). fatal_line py_int py_float n l))
   \<and> (decode_utf8 s = Some t \<longrightarrow> 0 \<le> n \<longrightarrow>
      (\<forall>l \<in> set (split_on 10 (strip t)). \<not> fatal_line py_int py_float n l) \<longrightarrow>
      (\<exists>v. parse_megam_weights py_int py_float True s n True = Inr v \<and>
           length v = nat n \<and>
           (\<forall>j < nat n. v ! j
              = addressed_weight py_int py_float n (split_on 10 (strip t)) j)))"
proof (intro conjI impI)
  assume dec: "decode_utf8 s = Some t" and n: "0 \<le> n"
    and ok: "\<forall>l \<in> set (split_on 10 (strip t)). \<not> fatal_line py_int py_float n l"
  have len: "int (length (replicate (nat n) (0::'a))) = n" using n by simp
  from parse_lines_accepted [OF ok len] obtain v where
    v: "parse_lines py_int py_float (split_on 10 (strip t)) (replicate (nat n) 0) = Inr v"
       "length v = nat n"
       "\<forall>j < nat n. v ! j =
          (case map_of (rev (map (\<lambda>(i, x). (numpy_position n i, x))
                               (named_weights py_int py_float (split_on 10 (strip t)))))
                  (int j) of
             Some x \<Rightarrow> x | None \<Rightarrow> replicate (nat n) 0 ! j)"
    by auto
  have run: "parse_megam_weights py_int py_float True s n True = Inr v"
    using dec n v(1) by (simp add: parse_megam_weights_def)
  have "v ! j = addressed_weight py_int py_float n (split_on 10 (strip t)) j"
    if "j < nat n" for j
    using v(3) that by (simp add: addressed_weight_def split: option.splits)
  with run v(2)
  show "\<exists>v. parse_megam_weights py_int py_float True s n True = Inr v \<and>
           length v = nat n \<and>
           (\<forall>j < nat n. v ! j
              = addressed_weight py_int py_float n (split_on 10 (strip t)) j)"
    by blast
next
  assume dec: "decode_utf8 s = Some t" and n: "0 \<le> n"
  have len: "int (length (replicate (nat n) (0::'a))) = n" using n by simp
  show "(\<exists>e. parse_megam_weights py_int py_float True s n True = Inl e)
        = (\<exists>l \<in> set (split_on 10 (strip t)). fatal_line py_int py_float n l)"
    using dec n parse_lines_fails [OF len, of py_int py_float "split_on 10 (strip t)"]
    by (simp add: parse_megam_weights_def)
next
  assume dec: "decode_utf8 s = Some t"
    and bad: "\<exists>l \<in> set (split_on 10 (strip t)). fatal_line py_int py_float n l"
  show "\<exists>e. parse_megam_weights py_int py_float numpy s n explicit = Inl e"
  proof (cases "0 \<le> n")
    case True
    have len: "int (length (replicate (nat n) (0::'a))) = n" using True by simp
    from bad parse_lines_fails [OF len, of py_int py_float "split_on 10 (strip t)"]
    show ?thesis
      using dec True by (simp add: parse_megam_weights_def)
  next
    case False
    then show ?thesis
      using dec by (simp add: parse_megam_weights_def)
  qed
qed

theorem parse_megam_weights_fatal_witness:
  "decode_utf8 ''0 0.5\<newline>7 2'' = Some (ustr ''0 0.5\<newline>7 2'')
   \<and> ustr ''7 2'' \<in> set (split_on 10 (strip (ustr ''0 0.5\<newline>7 2'')))
   \<and> fatal_line ascii_int float_table 5 (ustr ''7 2'')
   \<and> (\<exists>e. parse_megam_weights ascii_int float_table True ''0 0.5\<newline>7 2'' 5 True = Inl e)
   \<and> parse_megam_weights ascii_int float_table True ''0 0.5\<newline>7 2'' 5 True = Inl IndexError
   \<and> parse_megam_weights ascii_int float_table True ''0 0.5 1'' 5 True = Inl UnpackError
   \<and> parse_megam_weights ascii_int float_table True ''x 0.5'' 5 True = Inl IntError
   \<and> parse_megam_weights ascii_int float_table True ''0 x'' 5 True = Inl FloatError
   \<and> parse_megam_weights ascii_int float_table True ''-6 0.5'' 5 True = Inl IndexError
   \<and> decode_utf8 ''-2 0.5\<newline>1 2\<newline>-4 -1.25'' = Some (ustr ''-2 0.5\<newline>1 2\<newline>-4 -1.25'')
   \<and> \<not> fatal_line ascii_int float_table 5 (ustr ''-2 0.5'')
   \<and> parse_megam_weights ascii_int float_table True ''-2 0.5\<newline>1 2\<newline>-4 -1.25'' 5 True
       = Inr [0, - (5 / 4), 0, 1 / 2, 0]
   \<and> map (addressed_weight ascii_int float_table 5
             (split_on 10 (strip (ustr ''-2 0.5\<newline>1 2\<newline>-4 -1.25''))))
        [0, 1, 2, 3, 4]
       = [0, - (5 / 4), 0, 1 / 2, 0]"
proof -
  let ?s = "''0 0.5\<newline>7 2''"
  let ?g = "''-2 0.5\<newline>1 2\<newline>-4 -1.25''"
  have dec: "decode_utf8 ?s = Some (ustr ?s)"
    by (simp add: text_eval)
  have mem: "ustr ''7 2'' \<in> set (split_on 10 (strip (ustr ?s)))"
    by (simp add: text_eval)
  have bad: "fatal_line ascii_int float_table 5 (ustr ''7 2'')"
    by (simp add: parse_eval fatal_line_def)
  from mem bad
  have ex: "\<exists>l \<in> set (split_on 10 (strip (ustr ?s))). fatal_line ascii_int float_table 5 l"
    by blast
  from parse_megam_weights_fatal [of ?s "ustr ?s" ascii_int float_table 5 True True] dec ex
  have fails: "\<exists>e. parse_megam_weights ascii_int float_table True ?s 5 True = Inl e"
    by blast
  have others:
    "parse_megam_weights ascii_int float_table True ?s 5 True = Inl IndexError"
    "parse_megam_weights ascii_int float_table True ''0 0.5 1'' 5 True = Inl UnpackError"
    "parse_megam_weights ascii_int float_table True ''x 0.5'' 5 True = Inl IntError"
    "parse_megam_weights ascii_int float_table True ''0 x'' 5 True = Inl FloatError"
    "parse_megam_weights ascii_int float_table True ''-6 0.5'' 5 True = Inl IndexError"
    by (simp_all add: parse_eval)
  have gdec: "decode_utf8 ?g = Some (ustr ?g)"
    by (simp add: text_eval)
  have good: "\<forall>l \<in> set (split_on 10 (strip (ustr ?g))). \<not> fatal_line ascii_int float_table 5 l"
    by (simp add: parse_eval fatal_line_def)
  have one: "\<not> fatal_line ascii_int float_table 5 (ustr ''-2 0.5'')"
    by (simp add: parse_eval fatal_line_def)
  have run: "parse_megam_weights ascii_int float_table True ?g 5 True
      = Inr [0, - (5 / 4), 0, 1 / 2, 0]"
    by (simp add: parse_eval)
  from parse_megam_weights_fatal [of ?g "ustr ?g" ascii_int float_table 5 True True] gdec good
  obtain v where
    v: "parse_megam_weights ascii_int float_table True ?g 5 True = Inr v"
       "\<forall>j < nat 5. v ! j
          = addressed_weight ascii_int float_table 5 (split_on 10 (strip (ustr ?g))) j"
    by auto
  from v(1) run have "v = [0, - (5 / 4), 0, 1 / 2, 0]" by simp
  with v(2)
  have "\<forall>j < 5. addressed_weight ascii_int float_table 5 (split_on 10 (strip (ustr ?g))) j
         = [0, - (5 / 4), 0, 1 / 2, 0] ! j"
    by simp
  then have pos: "map (addressed_weight ascii_int float_table 5
                         (split_on 10 (strip (ustr ?g)))) [0, 1, 2, 3, 4]
      = [0, - (5 / 4), 0, 1 / 2, 0]"
    by simp
  from dec mem bad fails others gdec one run pos show ?thesis by blast
qed

subsection \<open>Writing the feature blocks\<close>

lemma texts_stream_write: "texts (stream_write st s) = texts st @ [s]"
  by (simp add: texts_def stream_write_def)

lemma bytes_writer_stream_write: "bytes_writer (stream_write st s) = bytes_writer st"
  by (simp add: stream_write_def)

lemma texts_foldl_write: "texts (foldl stream_write st ss) = texts st @ ss"
  by (induction ss arbitrary: st) (simp_all add: texts_stream_write)

lemma write_features_eq:
  "write_features fmt vector st bernoulli =
     (foldl stream_write st
        (feature_block fmt bernoulli
           (takeWhile (\<lambda>(fid, fval). \<not> bernoulli \<or> fval = 0 \<or> fval = 1) vector)),
      if bernoulli \<and> \<not> binary_vector vector then Some NotBinary else None)"
proof (induction vector arbitrary: st)
  case Nil
  then show ?case by (simp add: feature_block_def binary_vector_def)
next
  case (Cons p vector)
  obtain fid fval where p: "p = (fid, fval)" by (cases p)
  show ?case
    using Cons.IH by (auto simp: p feature_block_def binary_vector_def)
qed

lemma takeWhile_binary:
  "\<not> (bernoulli \<and> \<not> binary_vector vector) \<Longrightarrow>
     takeWhile (\<lambda>(fid, fval). \<not> bernoulli \<or> fval = 0 \<or> fval = 1) vector = vector"
  by (auto simp: binary_vector_def list_all_iff intro!: takeWhile_eq_all_conv [THEN iffD2])

lemma write_megam_features_error:
  "snd (write_megam_features fmt vector st bernoulli) = block_error bernoulli vector"
  by (simp add: write_megam_features_def write_features_eq block_error_def)

lemma write_megam_features_ok:
  "block_error bernoulli vector = None \<Longrightarrow>
     write_megam_features fmt vector st bernoulli
       = (foldl stream_write st (feature_block fmt bernoulli vector), None)"
proof -
  assume ok: "block_error bernoulli vector = None"
  then have ne: "vector \<noteq> []" and nb: "\<not> (bernoulli \<and> \<not> binary_vector vector)"
    by (auto simp: block_error_def split: if_splits)
  show ?thesis
    unfolding write_megam_features_def write_features_eq takeWhile_binary [OF nb]
    using ne nb by simp
qed

lemma write_megam_features_extends:
  "\<exists>rest. texts (fst (write_megam_features fmt vector st bernoulli)) = texts st @ rest"
  by (simp add: write_megam_features_def write_features_eq texts_foldl_write)

lemma write_blocks_error:
  "snd (write_blocks fmt encoding featureset ls st bernoulli)
     = first_error (map (\<lambda>l. block_error bernoulli (encode encoding featureset l)) ls)"
proof (induction ls arbitrary: st)
  case Nil
  then show ?case by simp
next
  case (Cons l ls)
  show ?case
  proof (cases "block_error bernoulli (encode encoding featureset l)")
    case None
    then show ?thesis
      using Cons.IH by (simp add: write_megam_features_ok)
  next
    case (Some e)
    then have "snd (write_megam_features fmt (encode encoding featureset l)
                      (stream_write st '' #'') bernoulli) = Some e"
      by (simp add: write_megam_features_error)
    with Some show ?thesis
      by (auto split: prod.splits option.splits)
  qed
qed

lemma write_blocks_ok:
  "first_error (map (\<lambda>l. block_error bernoulli (encode encoding featureset l)) ls) = None \<Longrightarrow>
     texts (fst (write_blocks fmt encoding featureset ls st bernoulli))
       = texts st @ concat (map (\<lambda>l. '' #'' # feature_block fmt bernoulli
                                              (encode encoding featureset l)) ls)"
proof (induction ls arbitrary: st)
  case Nil
  then show ?case by simp
next
  case (Cons l ls)
  from Cons.prems have none: "block_error bernoulli (encode encoding featureset l) = None"
    and rest: "first_error (map (\<lambda>l. block_error bernoulli (encode encoding featureset l)) ls)
                 = None"
    by (cases "block_error bernoulli (encode encoding featureset l)"; simp)+
  show ?case
    using Cons.IH [OF rest]
    by (simp add: write_megam_features_ok [OF none] texts_foldl_write texts_stream_write)
qed

lemma write_blocks_extends:
  "\<exists>rest. texts (fst (write_blocks fmt encoding featureset ls st bernoulli)) = texts st @ rest"
proof (induction ls arbitrary: st)
  case Nil
  then show ?case by simp
next
  case (Cons l ls)
  obtain st' r where w: "write_megam_features fmt (encode encoding featureset l)
                      (stream_write st '' #'') bernoulli = (st', r)"
    by (cases "write_megam_features fmt (encode encoding featureset l)
                      (stream_write st '' #'') bernoulli")
  from write_megam_features_extends [of fmt "encode encoding featureset l"
      "stream_write st '' #''" bernoulli] w
  obtain r1 where r1: "texts st' = texts st @ '' #'' # r1"
    by (auto simp: texts_stream_write)
  from Cons.IH [of st'] obtain r2 where
    r2: "texts (fst (write_blocks fmt encoding featureset ls st' bernoulli)) = texts st' @ r2"
    by blast
  show ?case
    using w r1 r2 by (cases r) auto
qed

subsection \<open>The first field of a line\<close>

lemma enumerate_snoc: "enumerate n (xs @ [x]) = enumerate n xs @ [(n + length xs, x)]"
  by (induction xs arbitrary: n) simp_all

lemma labelnum_of_Nil: "labelnum_of [] = Map.empty"
  by (simp add: labelnum_of_def)

lemma labelnum_of_snoc: "labelnum_of (ls @ [l]) = (labelnum_of ls)(l \<mapsto> length ls)"
  by (simp add: labelnum_of_def enumerate_snoc)

lemma labelnum_of_None: "(labelnum_of ls l = None) = (l \<notin> set ls)"
  by (induction ls rule: rev_induct) (auto simp: labelnum_of_Nil labelnum_of_snoc)

lemma labelnum_of_Some:
  "labelnum_of ls l = Some i \<Longrightarrow>
     i < length ls \<and> ls ! i = l \<and> (\<forall>j. i < j \<and> j < length ls \<longrightarrow> ls ! j \<noteq> l)"
proof (induction ls arbitrary: i rule: rev_induct)
  case Nil
  then show ?case by (simp add: labelnum_of_Nil)
next
  case (snoc x xs)
  show ?case
  proof (cases "x = l")
    case True
    with snoc.prems have "i = length xs" by (simp add: labelnum_of_snoc)
    with True show ?thesis by auto
  next
    case False
    with snoc.prems have "labelnum_of xs l = Some i" by (simp add: labelnum_of_snoc)
    from snoc.IH [OF this] False show ?thesis
      by (auto simp: nth_append less_Suc_eq)
  qed
qed

lemma labelnum_of_distinct:
  "distinct ls \<Longrightarrow> i < length ls \<Longrightarrow> labelnum_of ls (ls ! i) = Some i"
proof -
  assume d: "distinct ls" and i: "i < length ls"
  then have "ls ! i \<in> set ls" by simp
  then obtain k where k: "labelnum_of ls (ls ! i) = Some k"
    using labelnum_of_None [of ls "ls ! i"] by (cases "labelnum_of ls (ls ! i)") auto
  from labelnum_of_Some [OF k] have "k < length ls" "ls ! k = ls ! i" by simp_all
  with d i have "k = i" by (simp add: nth_eq_iff_index_eq)
  with k show ?thesis by simp
qed

lemma instance_head_error:
  "(instance_head fmt encoding (labels encoding) (labelnum_of (labels encoding)) featureset label
      = Inl e) = (head_error encoding (featureset, label) = Some e)"
  using labelnum_of_None [of "labels encoding" label]
  by (auto simp: instance_head_def head_error_def split: option.splits)

lemma instance_head_text:
  "head_error encoding (featureset, label) = None \<Longrightarrow>
     instance_head fmt encoding (labels encoding) (labelnum_of (labels encoding)) featureset label
       = Inr (head_text fmt encoding (featureset, label))"
  using instance_head_error [of fmt encoding featureset label]
  by (cases "instance_head fmt encoding (labels encoding) (labelnum_of (labels encoding))
               featureset label") (auto simp: head_text_def)

subsection \<open>Writing one line\<close>

lemma first_error_append:
  "first_error (xs @ ys) = (case first_error xs of None \<Rightarrow> first_error ys | Some e \<Rightarrow> Some e)"
  by (induction xs rule: first_error.induct) simp_all

lemma first_error_single [simp]: "first_error [x] = x"
  by (cases x) simp_all

lemma first_error_None: "(first_error es = None) = (\<forall>e \<in> set es. e = None)"
  by (induction es rule: first_error.induct) simp_all


lemma write_instance_head_error:
  "head_error encoding tok = Some e \<Longrightarrow>
     write_instance fmt encoding (labels encoding) (labelnum_of (labels encoding)) tok st
       bernoulli explicit = (st, Some e)"
proof -
  assume h: "head_error encoding tok = Some e"
  obtain featureset label where tok: "tok = (featureset, label)" by (cases tok)
  from h tok instance_head_error [of fmt encoding featureset label e]
  show ?thesis by (simp add: write_instance_def)
qed

lemma write_instance_error:
  "snd (write_instance fmt encoding (labels encoding) (labelnum_of (labels encoding)) tok st
          bernoulli explicit)
     = first_error (instance_errors encoding bernoulli explicit tok)"
proof -
  obtain featureset label where tok: "tok = (featureset, label)" by (cases tok)
  show ?thesis
  proof (cases "head_error encoding tok")
    case (Some e)
    then show ?thesis
      by (simp add: write_instance_head_error instance_errors_def)
  next
    case None
    then have h: "instance_head fmt encoding (labels encoding) (labelnum_of (labels encoding))
          featureset label = Inr (head_text fmt encoding (featureset, label))"
      using tok by (simp add: instance_head_text)
    show ?thesis
    proof (cases explicit)
      case True
      with None h tok
        write_blocks_error [of fmt encoding featureset "labels encoding"
          "stream_write st (head_text fmt encoding (featureset, label))" bernoulli]
      show ?thesis
        by (auto simp: write_instance_def instance_errors_def encoded_vectors_def comp_def
            split: prod.splits option.splits)
    next
      case False
      with None h tok
        write_megam_features_error [of fmt "encode encoding featureset label"
          "stream_write st (head_text fmt encoding (featureset, label))" bernoulli]
      show ?thesis
        by (auto simp: write_instance_def instance_errors_def encoded_vectors_def
            split: prod.splits option.splits)
    qed
  qed
qed

lemma write_instance_ok:
  "first_error (instance_errors encoding bernoulli explicit tok) = None \<Longrightarrow>
     texts (fst (write_instance fmt encoding (labels encoding) (labelnum_of (labels encoding))
                   tok st bernoulli explicit))
       = texts st @ instance_line fmt encoding bernoulli explicit tok"
proof -
  assume ok: "first_error (instance_errors encoding bernoulli explicit tok) = None"
  obtain featureset label where tok: "tok = (featureset, label)" by (cases tok)
  from ok have hd: "head_error encoding tok = None"
    and blocks: "first_error (map (block_error bernoulli)
                   (encoded_vectors encoding explicit tok)) = None"
    by (cases "head_error encoding tok"; simp add: instance_errors_def)+
  from hd tok
  have h: "instance_head fmt encoding (labels encoding) (labelnum_of (labels encoding))
          featureset label = Inr (head_text fmt encoding (featureset, label))"
    by (simp add: instance_head_text)
  let ?st1 = "stream_write st (head_text fmt encoding (featureset, label))"
  show ?thesis
  proof (cases explicit)
    case True
    with blocks tok
    have b: "first_error (map (\<lambda>l. block_error bernoulli (encode encoding featureset l))
                           (labels encoding)) = None"
      by (simp add: encoded_vectors_def comp_def)
    from write_blocks_ok [OF b, of fmt ?st1]
      write_blocks_error [of fmt encoding featureset "labels encoding" ?st1 bernoulli] b
    show ?thesis
      using True h tok
      by (auto simp: write_instance_def instance_line_def instance_blocks_def
          texts_stream_write split: prod.splits option.splits)
  next
    case False
    with blocks tok
    have b: "block_error bernoulli (encode encoding featureset label) = None"
      by (cases "block_error bernoulli (encode encoding featureset label)")
         (simp_all add: encoded_vectors_def)
    show ?thesis
      using False h tok
      by (simp add: write_instance_def instance_line_def instance_blocks_def
          write_megam_features_ok [OF b] texts_stream_write texts_foldl_write)
  qed
qed

lemma write_instance_extends:
  "\<exists>rest. texts (fst (write_instance fmt encoding (labels encoding)
                          (labelnum_of (labels encoding)) tok st bernoulli explicit))
            = texts st @ rest"
proof -
  obtain featureset label where tok: "tok = (featureset, label)" by (cases tok)
  show ?thesis
  proof (cases "head_error encoding tok")
    case (Some e)
    then show ?thesis by (simp add: write_instance_head_error)
  next
    case None
    then have h: "instance_head fmt encoding (labels encoding) (labelnum_of (labels encoding))
          featureset label = Inr (head_text fmt encoding (featureset, label))"
      using tok by (simp add: instance_head_text)
    let ?st1 = "stream_write st (head_text fmt encoding (featureset, label))"
    from write_blocks_extends [of fmt encoding featureset "labels encoding" ?st1 bernoulli]
    obtain r1 where r1: "texts (fst (write_blocks fmt encoding featureset (labels encoding)
                                       ?st1 bernoulli)) = texts ?st1 @ r1" by blast
    from write_megam_features_extends [of fmt "encode encoding featureset label" ?st1 bernoulli]
    obtain r2 where r2: "texts (fst (write_megam_features fmt (encode encoding featureset label)
                                       ?st1 bernoulli)) = texts ?st1 @ r2" by blast
    show ?thesis
      using h tok r1 r2
      by (auto simp: write_instance_def texts_stream_write split: prod.splits option.splits)
  qed
qed

subsection \<open>Writing the file\<close>

lemma write_instance_head:
  "head_error encoding tok = None \<Longrightarrow>
     \<exists>rest. texts (fst (write_instance fmt encoding (labels encoding)
                          (labelnum_of (labels encoding)) tok st bernoulli explicit))
            = texts st @ head_text fmt encoding tok # rest"
proof -
  assume hd: "head_error encoding tok = None"
  obtain featureset label where tok: "tok = (featureset, label)" by (cases tok)
  from hd tok
  have h: "instance_head fmt encoding (labels encoding) (labelnum_of (labels encoding))
          featureset label = Inr (head_text fmt encoding (featureset, label))"
    by (simp add: instance_head_text)
  let ?st1 = "stream_write st (head_text fmt encoding (featureset, label))"
  from write_blocks_extends [of fmt encoding featureset "labels encoding" ?st1 bernoulli]
  obtain r1 where r1: "texts (fst (write_blocks fmt encoding featureset (labels encoding)
                                     ?st1 bernoulli)) = texts ?st1 @ r1" by blast
  from write_megam_features_extends [of fmt "encode encoding featureset label" ?st1 bernoulli]
  obtain r2 where r2: "texts (fst (write_megam_features fmt (encode encoding featureset label)
                                     ?st1 bernoulli)) = texts ?st1 @ r2" by blast
  show ?thesis
    using h tok r1 r2
    by (auto simp: write_instance_def texts_stream_write split: prod.splits option.splits)
qed

lemma write_instances_append:
  "write_instances fmt encoding ls lnum (pre @ post) st bernoulli explicit =
     (case write_instances fmt encoding ls lnum pre st bernoulli explicit of
        (st1, Some e) \<Rightarrow> (st1, Some e)
      | (st1, None) \<Rightarrow> write_instances fmt encoding ls lnum post st1 bernoulli explicit)"
  by (induction pre arbitrary: st) (auto split: prod.splits option.splits)

lemma write_instances_error:
  "snd (write_instances fmt encoding (labels encoding) (labelnum_of (labels encoding)) toks st
          bernoulli explicit)
     = first_error (concat (map (instance_errors encoding bernoulli explicit) toks))"
proof (induction toks arbitrary: st)
  case Nil
  then show ?case by simp
next
  case (Cons tok toks)
  from write_instance_error [of fmt encoding tok st bernoulli explicit] Cons.IH
  show ?case
    by (auto simp: first_error_append split: prod.splits option.splits)
qed

lemma write_instances_ok:
  "first_error (concat (map (instance_errors encoding bernoulli explicit) toks)) = None \<Longrightarrow>
     texts (fst (write_instances fmt encoding (labels encoding) (labelnum_of (labels encoding))
                   toks st bernoulli explicit))
       = texts st @ concat (map (instance_line fmt encoding bernoulli explicit) toks)"
proof (induction toks arbitrary: st)
  case Nil
  then show ?case by simp
next
  case (Cons tok toks)
  from Cons.prems
  have one: "first_error (instance_errors encoding bernoulli explicit tok) = None"
    and rest: "first_error (concat (map (instance_errors encoding bernoulli explicit) toks))
                = None"
    by (simp_all add: first_error_append split: option.splits)
  from write_instance_error [of fmt encoding tok st bernoulli explicit] one
    write_instance_ok [OF one, of fmt st] Cons.IH [OF rest]
  show ?case
    by (auto split: prod.splits option.splits)
qed

lemma write_instances_extends:
  "\<exists>rest. texts (fst (write_instances fmt encoding (labels encoding)
                          (labelnum_of (labels encoding)) toks st bernoulli explicit))
            = texts st @ rest"
proof (induction toks arbitrary: st)
  case Nil
  then show ?case by simp
next
  case (Cons tok toks)
  obtain st1 r where w: "write_instance fmt encoding (labels encoding)
      (labelnum_of (labels encoding)) tok st bernoulli explicit = (st1, r)"
    by (cases "write_instance fmt encoding (labels encoding)
      (labelnum_of (labels encoding)) tok st bernoulli explicit")
  from write_instance_extends [of fmt encoding tok st bernoulli explicit] w
  obtain r1 where r1: "texts st1 = texts st @ r1" by auto
  from Cons.IH [of st1] obtain r2 where
    r2: "texts (fst (write_instances fmt encoding (labels encoding)
                  (labelnum_of (labels encoding)) toks st1 bernoulli explicit)) = texts st1 @ r2"
    by blast
  show ?case
    using w r1 r2 by (cases r) auto
qed

lemma write_megam_file_eq:
  "write_megam_file fmt toks encoding st bernoulli explicit bin_stream =
     write_instances fmt encoding (labels encoding) (labelnum_of (labels encoding)) toks
       (if bin_stream then st\<lparr>bytes_writer := True\<rparr> else st) bernoulli explicit"
  by (simp add: write_megam_file_def Let_def)

lemma texts_wrap: "texts (if bin_stream then st\<lparr>bytes_writer := True\<rparr> else st) = texts st"
  by (simp add: texts_def)

lemma write_megam_file_error:
  "snd (write_megam_file fmt toks encoding st bernoulli explicit bin_stream)
     = first_error (concat (map (instance_errors encoding bernoulli explicit) toks))"
  by (simp only: write_megam_file_eq write_instances_error)

lemma write_megam_file_ok:
  "first_error (concat (map (instance_errors encoding bernoulli explicit) toks)) = None \<Longrightarrow>
     texts (fst (write_megam_file fmt toks encoding st bernoulli explicit bin_stream))
       = texts st @ concat (map (instance_line fmt encoding bernoulli explicit) toks)"
  by (simp only: write_megam_file_eq write_instances_ok texts_wrap)

lemma write_megam_file_append:
  "write_megam_file fmt pre encoding st bernoulli explicit bin_stream = (st1, None) \<Longrightarrow>
     write_megam_file fmt (pre @ post) encoding st bernoulli explicit bin_stream
       = write_instances fmt encoding (labels encoding) (labelnum_of (labels encoding)) post st1
           bernoulli explicit"
  by (simp add: write_megam_file_eq write_instances_append)

subsection \<open>The format of the megam file\<close>

lemmas write_eval =
  write_megam_file_def write_instance_def instance_head_def labelnum_of_def
  write_megam_features_def stream_write_def str_nat.simps digit_char_def
  example_encoding_def example_cost_encoding_def example_encode_def example_str_def
  empty_stream_def texts_def

lemmas line_eval = instance_line_def instance_blocks_def head_text_def feature_block_def

text \<open>
  Claim C2. On every run of \<open>write_megam_file\<close> that returns, the stream receives,
  for each training pair in order, the pair's first field, then its feature blocks,
  then a newline. With \<open>explicit\<close> true there is exactly one block for every label of
  \<open>encoding.labels()\<close>, in that order, each behind the separator \<open>" #"\<close>; with
  \<open>explicit\<close> false there is exactly one block, that of the pair's own label, and no
  separator is written.
\<close>

theorem write_megam_file_blocks:
  "snd (write_megam_file fmt train_toks encoding st bernoulli explicit bin_stream) = None \<Longrightarrow>
     (explicit \<longrightarrow>
        texts (fst (write_megam_file fmt train_toks encoding st bernoulli explicit bin_stream))
          = texts st @
            concat (map (\<lambda>(featureset, label).
                      head_text fmt encoding (featureset, label)
                        # concat (map (\<lambda>l. '' #'' # feature_block fmt bernoulli
                                                     (encode encoding featureset l))
                                    (labels encoding))
                        @ [''\<newline>''])
                    train_toks))
     \<and> (\<not> explicit \<longrightarrow>
        texts (fst (write_megam_file fmt train_toks encoding st bernoulli explicit bin_stream))
          = texts st @
            concat (map (\<lambda>(featureset, label).
                      head_text fmt encoding (featureset, label)
                        # feature_block fmt bernoulli (encode encoding featureset label)
                        @ [''\<newline>''])
                    train_toks))"
proof -
  assume "snd (write_megam_file fmt train_toks encoding st bernoulli explicit bin_stream) = None"
  then have ok: "first_error (concat (map (instance_errors encoding bernoulli explicit)
                                        train_toks)) = None"
    by (simp add: write_megam_file_error)
  have expl: "instance_line fmt encoding bernoulli True =
      (\<lambda>(featureset, label).
          head_text fmt encoding (featureset, label)
            # concat (map (\<lambda>l. '' #'' # feature_block fmt bernoulli
                                         (encode encoding featureset l))
                        (labels encoding))
            @ [''\<newline>''])"
    by (auto simp: instance_line_def instance_blocks_def fun_eq_iff)
  have impl: "instance_line fmt encoding bernoulli False =
      (\<lambda>(featureset, label).
          head_text fmt encoding (featureset, label)
            # feature_block fmt bernoulli (encode encoding featureset label)
            @ [''\<newline>''])"
    by (auto simp: instance_line_def instance_blocks_def fun_eq_iff)
  from write_megam_file_ok [OF ok, of fmt st bin_stream] expl impl
  show ?thesis by (cases explicit) simp_all
qed

theorem write_megam_file_blocks_witness:
  "snd (write_megam_file example_str [(3, ''b''), (12, ''a'')] example_encoding empty_stream
          True True False) = None
   \<and> texts (fst (write_megam_file example_str [(3, ''b''), (12, ''a'')] example_encoding
                   empty_stream True True False))
       = [''1'', '' #'', '' 3'', '' #'', '' 4'', ''\<newline>'',
          ''0'', '' #'', '' 12'', '' #'', '' 13'', ''\<newline>'']
   \<and> snd (write_megam_file example_str [(3, ''b''), (12, ''a'')] example_encoding empty_stream
          False False False) = None
   \<and> texts (fst (write_megam_file example_str [(3, ''b''), (12, ''a'')] example_encoding
                   empty_stream False False False))
       = [''1'', '' 4 1'', ''\<newline>'', ''0'', '' 12 1'', '' 7 0'', ''\<newline>'']"
proof -
  let ?toks = "[(3::nat, ''b''), (12, ''a'')]"
  have ok1: "snd (write_megam_file example_str ?toks example_encoding empty_stream
          True True False) = None"
    by (simp add: write_eval)
  have ok2: "snd (write_megam_file example_str ?toks example_encoding empty_stream
          False False False) = None"
    by (simp add: write_eval)
  from write_megam_file_blocks [OF ok1]
  have t1: "texts (fst (write_megam_file example_str ?toks example_encoding
                   empty_stream True True False))
       = [''1'', '' #'', '' 3'', '' #'', '' 4'', ''\<newline>'',
          ''0'', '' #'', '' 12'', '' #'', '' 13'', ''\<newline>'']"
    by (simp add: line_eval instance_head_def labelnum_of_def str_nat.simps digit_char_def
        example_encoding_def example_encode_def example_str_def empty_stream_def texts_def)
  from write_megam_file_blocks [OF ok2]
  have t2: "texts (fst (write_megam_file example_str ?toks example_encoding
                   empty_stream False False False))
       = [''1'', '' 4 1'', ''\<newline>'', ''0'', '' 12 1'', '' 7 0'', ''\<newline>'']"
    by (simp add: line_eval instance_head_def labelnum_of_def str_nat.simps digit_char_def
        example_encoding_def example_encode_def example_str_def empty_stream_def texts_def)
  from ok1 t1 ok2 t2 show ?thesis by blast
qed

subsection \<open>Binary values\<close>


lemma block_error_NoAlwaysOn: "(block_error bernoulli vector = Some NoAlwaysOn) = (vector = [])"
  by (simp add: block_error_def)

lemma binary_vector_Nil: "binary_vector []"
  by (simp add: binary_vector_def)




lemma plan_block:
  "tok \<in> set toks \<Longrightarrow> vector \<in> set (encoded_vectors encoding explicit tok) \<Longrightarrow>
     block_error bernoulli vector
       \<in> set (concat (map (instance_errors encoding bernoulli explicit) toks))"
  by (auto simp: instance_errors_def)

lemma first_error_all:
  "first_error es \<noteq> None \<Longrightarrow> \<forall>x \<in> set es. x = None \<or> x = Some e \<Longrightarrow> first_error es = Some e"
  by (induction es rule: first_error.induct) auto



subsection \<open>Empty vectors\<close>

lemma write_megam_features_Nil:
  "write_megam_features fmt [] st bernoulli = (st, Some NoAlwaysOn)"
  by (simp add: write_megam_features_def)

lemma write_blocks_stop:
  "\<forall>k \<in> set ls1. block_error bernoulli (encode encoding featureset k) = None \<Longrightarrow>
   encode encoding featureset l = [] \<Longrightarrow>
     snd (write_blocks fmt encoding featureset (ls1 @ l # ls2) st bernoulli) = Some NoAlwaysOn
     \<and> texts (fst (write_blocks fmt encoding featureset (ls1 @ l # ls2) st bernoulli))
         = texts st
           @ concat (map (\<lambda>k. '' #'' # feature_block fmt bernoulli
                                         (encode encoding featureset k)) ls1)
           @ ['' #'']"
proof (induction ls1 arbitrary: st)
  case Nil
  then show ?case
    by (simp add: write_megam_features_Nil texts_stream_write)
next
  case (Cons k ls1)
  from Cons.prems have ok: "block_error bernoulli (encode encoding featureset k) = None"
    and rest: "\<forall>k \<in> set ls1. block_error bernoulli (encode encoding featureset k) = None"
    by simp_all
  from Cons.IH [OF rest Cons.prems(2)]
  show ?case
    by (simp add: write_megam_features_ok [OF ok] texts_foldl_write texts_stream_write)
qed

text \<open>
  Claim C5. \<open>_write_megam_features\<close> raises the always-on error for an empty vector,
  with or without the bernoulli format, and leaves the stream as it was. So
  \<open>write_megam_file\<close> raises whenever a vector that it encodes is empty: the
  always-on error itself whenever no first field and no value that is not binary
  raises before. When the run reaches the empty vector, the stream ends with the
  first field of the line (implicit format), or with the separator of the block
  (explicit format): no feature token of the block is written.
\<close>

theorem write_megam_file_empty_vector:
  "write_megam_features fmt [] st bernoulli = (st, Some NoAlwaysOn)
   \<and> ((\<exists>tok \<in> set train_toks. [] \<in> set (encoded_vectors encoding explicit tok)) \<longrightarrow>
        snd (write_megam_file fmt train_toks encoding st bernoulli explicit bin_stream) \<noteq> None)
   \<and> ((\<exists>tok \<in> set train_toks. [] \<in> set (encoded_vectors encoding explicit tok)) \<longrightarrow>
       (\<forall>tok \<in> set train_toks. head_error encoding tok = None
           \<and> (bernoulli \<longrightarrow>
                (\<forall>v \<in> set (encoded_vectors encoding explicit tok). binary_vector v))) \<longrightarrow>
        snd (write_megam_file fmt train_toks encoding st bernoulli explicit bin_stream)
          = Some NoAlwaysOn)
   \<and> (write_megam_file fmt pre encoding st bernoulli False bin_stream = (st1, None) \<longrightarrow>
       head_error encoding (featureset, label) = None \<longrightarrow>
       encode encoding featureset label = [] \<longrightarrow>
        write_megam_file fmt (pre @ (featureset, label) # post) encoding st bernoulli False
            bin_stream
          = (stream_write st1 (head_text fmt encoding (featureset, label)), Some NoAlwaysOn))
   \<and> (write_megam_file fmt pre encoding st bernoulli True bin_stream = (st1, None) \<longrightarrow>
       head_error encoding (featureset, label) = None \<longrightarrow>
       labels encoding = ls1 @ l # ls2 \<longrightarrow>
       (\<forall>k \<in> set ls1. block_error bernoulli (encode encoding featureset k) = None) \<longrightarrow>
       encode encoding featureset l = [] \<longrightarrow>
        snd (write_megam_file fmt (pre @ (featureset, label) # post) encoding st bernoulli True
               bin_stream) = Some NoAlwaysOn
        \<and> texts (fst (write_megam_file fmt (pre @ (featureset, label) # post) encoding st
                        bernoulli True bin_stream))
            = texts st1
              @ head_text fmt encoding (featureset, label)
              # concat (map (\<lambda>k. '' #'' # feature_block fmt bernoulli
                                            (encode encoding featureset k)) ls1)
              @ ['' #''])"
proof (intro conjI impI)
  show "write_megam_features fmt [] st bernoulli = (st, Some NoAlwaysOn)"
    by (rule write_megam_features_Nil)
next
  assume "\<exists>tok \<in> set train_toks. [] \<in> set (encoded_vectors encoding explicit tok)"
  then obtain tok where tok: "tok \<in> set train_toks"
    and v: "[] \<in> set (encoded_vectors encoding explicit tok)" by blast
  from plan_block [OF tok v, of bernoulli]
  show "snd (write_megam_file fmt train_toks encoding st bernoulli explicit bin_stream) \<noteq> None"
    by (auto simp: write_megam_file_error first_error_None block_error_def)
next
  assume "\<exists>tok \<in> set train_toks. [] \<in> set (encoded_vectors encoding explicit tok)"
    and clean: "\<forall>tok \<in> set train_toks. head_error encoding tok = None
           \<and> (bernoulli \<longrightarrow>
                (\<forall>v \<in> set (encoded_vectors encoding explicit tok). binary_vector v))"
  then obtain tok where tok: "tok \<in> set train_toks"
    and v: "[] \<in> set (encoded_vectors encoding explicit tok)" by blast
  from plan_block [OF tok v, of bernoulli]
  have some: "first_error (concat (map (instance_errors encoding bernoulli explicit)
                                     train_toks)) \<noteq> None"
    by (auto simp: first_error_None block_error_def)
  have only: "\<forall>x \<in> set (concat (map (instance_errors encoding bernoulli explicit) train_toks)).
                x = None \<or> x = Some NoAlwaysOn"
    using clean by (auto simp: instance_errors_def block_error_def)
  from first_error_all [OF some only]
  show "snd (write_megam_file fmt train_toks encoding st bernoulli explicit bin_stream)
          = Some NoAlwaysOn"
    by (simp add: write_megam_file_error)
next
  assume pre: "write_megam_file fmt pre encoding st bernoulli False bin_stream = (st1, None)"
    and hd: "head_error encoding (featureset, label) = None"
    and empty: "encode encoding featureset label = []"
  from hd have h: "instance_head fmt encoding (labels encoding) (labelnum_of (labels encoding))
          featureset label = Inr (head_text fmt encoding (featureset, label))"
    by (simp add: instance_head_text)
  show "write_megam_file fmt (pre @ (featureset, label) # post) encoding st bernoulli False
            bin_stream
          = (stream_write st1 (head_text fmt encoding (featureset, label)), Some NoAlwaysOn)"
    using h empty
    by (simp add: write_megam_file_append [OF pre] write_instance_def write_megam_features_Nil)
next
  assume pre: "write_megam_file fmt pre encoding st bernoulli True bin_stream = (st1, None)"
    and hd: "head_error encoding (featureset, label) = None"
    and ls: "labels encoding = ls1 @ l # ls2"
    and ok: "\<forall>k \<in> set ls1. block_error bernoulli (encode encoding featureset k) = None"
    and empty: "encode encoding featureset l = []"
  from hd have h: "instance_head fmt encoding (labels encoding) (labelnum_of (labels encoding))
          featureset label = Inr (head_text fmt encoding (featureset, label))"
    by (simp add: instance_head_text)
  let ?st2 = "stream_write st1 (head_text fmt encoding (featureset, label))"
  from write_blocks_stop [OF ok empty, of fmt ls2 ?st2]
  have stop: "snd (write_blocks fmt encoding featureset (labels encoding) ?st2 bernoulli)
                = Some NoAlwaysOn"
    "texts (fst (write_blocks fmt encoding featureset (labels encoding) ?st2 bernoulli))
       = texts ?st2
         @ concat (map (\<lambda>k. '' #'' # feature_block fmt bernoulli
                                       (encode encoding featureset k)) ls1)
         @ ['' #'']"
    by (simp_all add: ls)
  have run: "write_megam_file fmt (pre @ (featureset, label) # post) encoding st bernoulli True
               bin_stream
      = (fst (write_blocks fmt encoding featureset (labels encoding) ?st2 bernoulli),
         Some NoAlwaysOn)"
    using h stop(1)
    by (auto simp: write_megam_file_append [OF pre] write_instance_def
        split: prod.splits option.splits)
  show "snd (write_megam_file fmt (pre @ (featureset, label) # post) encoding st bernoulli True
               bin_stream) = Some NoAlwaysOn"
    by (simp add: run)
  show "texts (fst (write_megam_file fmt (pre @ (featureset, label) # post) encoding st
                        bernoulli True bin_stream))
            = texts st1
              @ head_text fmt encoding (featureset, label)
              # concat (map (\<lambda>k. '' #'' # feature_block fmt bernoulli
                                            (encode encoding featureset k)) ls1)
              @ ['' #'']"
    by (simp add: run stop(2) texts_stream_write)
qed

theorem write_megam_file_empty_vector_witness:
  "write_megam_features example_str [] empty_stream True = (empty_stream, Some NoAlwaysOn)
   \<and> snd (write_megam_file example_str [(3, ''b''), (120, ''a'')] example_cost_encoding
            empty_stream True True False) \<noteq> None
   \<and> snd (write_megam_file example_str [(3, ''b''), (120, ''a'')] example_cost_encoding
            empty_stream False True False) = Some NoAlwaysOn
   \<and> texts (fst (write_megam_file example_str [(3, ''b''), (120, ''a'')] example_cost_encoding
                   empty_stream False True False))
       = [''3:0'', '' #'', '' 3 1'', '' 7 0'', '' #'', '' 4 1'', ''\<newline>'', ''0:120'', '' #'']
   \<and> write_megam_file example_str [(3, ''b''), (120, ''a'')] example_cost_encoding
         empty_stream False False False
       = (\<lparr>bytes_writer = False,
            written = [Str ''3:0'', Str '' 4 1'', Str ''\<newline>'', Str ''0:120'']\<rparr>,
          Some NoAlwaysOn)"
proof -
  let ?toks = "[(3::nat, ''b''), (120, ''a'')]"
  let ?e1 = "\<lparr>bytes_writer = False,
      written = [Str ''3:0'', Str '' #'', Str '' 3 1'', Str '' 7 0'', Str '' #'', Str '' 4 1'',
                 Str ''\<newline>'']\<rparr>"
  let ?i1 = "\<lparr>bytes_writer = False, written = [Str ''3:0'', Str '' 4 1'', Str ''\<newline>'']\<rparr>"
  have ex: "\<And>x. \<exists>tok \<in> set ?toks. [] \<in> set (encoded_vectors example_cost_encoding x tok)"
    by (simp add: encoded_vectors_def example_cost_encoding_def example_encode_def)
  have clean: "\<forall>tok \<in> set ?toks. head_error example_cost_encoding tok = None
      \<and> (False \<longrightarrow> (\<forall>v \<in> set (encoded_vectors example_cost_encoding True tok).
                       binary_vector v))"
    by (simp add: head_error_def example_cost_encoding_def)
  have hd: "head_error example_cost_encoding (120, ''a'') = None"
    by (simp add: head_error_def example_cost_encoding_def)
  have ht: "head_text example_str example_cost_encoding (120, ''a'') = ''0:120''"
    by (simp add: head_text_def instance_head_def example_cost_encoding_def example_str_def
        str_nat.simps digit_char_def)
  have pre_e: "write_megam_file example_str [(3, ''b'')] example_cost_encoding empty_stream
      False True False = (?e1, None)"
    by (simp add: write_eval)
  have pre_i: "write_megam_file example_str [(3, ''b'')] example_cost_encoding empty_stream
      False False False = (?i1, None)"
    by (simp add: write_eval)
  have ls: "labels example_cost_encoding = [] @ ''a'' # [''b'']"
    by (simp add: example_cost_encoding_def)
  have empty: "encode example_cost_encoding 120 ''a'' = []"
    by (simp add: example_cost_encoding_def example_encode_def)
  note a = write_megam_file_empty_vector
      [where fmt = example_str and st = empty_stream and bernoulli = True
         and train_toks = ?toks and encoding = example_cost_encoding and explicit = True
         and bin_stream = False]
  note b = write_megam_file_empty_vector
      [where fmt = example_str and st = empty_stream and bernoulli = False
         and train_toks = ?toks and encoding = example_cost_encoding and explicit = True
         and bin_stream = False and pre = "[(3, ''b'')]" and ?st1.0 = ?e1
         and featureset = 120 and label = "''a''" and post = "[]"
         and ?ls1.0 = "[]" and l = "''a''" and ?ls2.0 = "[''b'']"]
  note c = write_megam_file_empty_vector
      [where fmt = example_str and st = empty_stream and bernoulli = False
         and encoding = example_cost_encoding and bin_stream = False
         and pre = "[(3, ''b'')]" and ?st1.0 = ?i1
         and featureset = 120 and label = "''a''" and post = "[]"]
  from a have c1: "write_megam_features example_str [] empty_stream True
      = (empty_stream, Some NoAlwaysOn)" by blast
  from a ex [of True] have c2: "snd (write_megam_file example_str ?toks example_cost_encoding
            empty_stream True True False) \<noteq> None" by blast
  from b ex [of True] clean
  have c3: "snd (write_megam_file example_str ?toks example_cost_encoding
            empty_stream False True False) = Some NoAlwaysOn" by blast
  from b pre_e hd ls empty
  have "texts (fst (write_megam_file example_str ([(3, ''b'')] @ (120, ''a'') # [])
                      example_cost_encoding empty_stream False True False))
      = texts ?e1 @ head_text example_str example_cost_encoding (120, ''a'')
          # concat (map (\<lambda>k. '' #'' # feature_block example_str False
                                        (encode example_cost_encoding 120 k)) [])
          @ ['' #'']"
    by simp
  then have c4: "texts (fst (write_megam_file example_str ?toks example_cost_encoding
                   empty_stream False True False))
       = [''3:0'', '' #'', '' 3 1'', '' 7 0'', '' #'', '' 4 1'', ''\<newline>'', ''0:120'', '' #'']"
    by (simp add: ht texts_def)
  from c pre_i hd empty
  have "write_megam_file example_str ([(3, ''b'')] @ (120, ''a'') # []) example_cost_encoding
          empty_stream False False False
      = (stream_write ?i1 (head_text example_str example_cost_encoding (120, ''a'')),
         Some NoAlwaysOn)"
    by blast
  then have c5: "write_megam_file example_str ?toks example_cost_encoding
         empty_stream False False False
       = (\<lparr>bytes_writer = False,
            written = [Str ''3:0'', Str '' 4 1'', Str ''\<newline>'', Str ''0:120'']\<rparr>,
          Some NoAlwaysOn)"
    by (simp add: ht stream_write_def)
  from c1 c2 c3 c4 c5 show ?thesis by blast
qed

subsection \<open>The first field\<close>

lemma write_instances_head:
  "head_error encoding tok = None \<Longrightarrow>
     \<exists>rest. texts (fst (write_instances fmt encoding (labels encoding)
                          (labelnum_of (labels encoding)) (tok # post) st bernoulli explicit))
            = texts st @ head_text fmt encoding tok # rest"
proof -
  assume hd: "head_error encoding tok = None"
  obtain st2 r where w: "write_instance fmt encoding (labels encoding)
      (labelnum_of (labels encoding)) tok st bernoulli explicit = (st2, r)"
    by (cases "write_instance fmt encoding (labels encoding)
      (labelnum_of (labels encoding)) tok st bernoulli explicit")
  from write_instance_head [OF hd, of fmt st bernoulli explicit] w
  obtain r1 where r1: "texts st2 = texts st @ head_text fmt encoding tok # r1" by auto
  from write_instances_extends [of fmt encoding post st2 bernoulli explicit]
  obtain r2 where r2: "texts (fst (write_instances fmt encoding (labels encoding)
      (labelnum_of (labels encoding)) post st2 bernoulli explicit)) = texts st2 @ r2"
    by blast
  show ?thesis
    using w r1 r2 by (cases r) auto
qed

lemma head_text_cost:
  "cost encoding = Some c \<Longrightarrow>
     head_text fmt encoding (featureset, label)
       = join '':'' (map (\<lambda>l. str_cost fmt (c featureset label l)) (labels encoding))"
  by (simp add: head_text_def instance_head_def)

lemma head_text_index:
  "cost encoding = None \<Longrightarrow> labelnum_of (labels encoding) label = Some i \<Longrightarrow>
     head_text fmt encoding (featureset, label) = str_nat i"
  by (simp add: head_text_def instance_head_def)

text \<open>
  Claim C4. After the lines of the pairs before it, the first chunk that
  \<open>write_megam_file\<close> writes for a training pair depends on the encoding alone. When
  the encoding has a \<open>cost\<close> method, it is the costs of all labels, in the order of
  \<open>encoding.labels()\<close>, for the pair's feature set and label, joined by colons. When
  it has none, it is the decimal index of the pair's label in \<open>encoding.labels()\<close>
  (the last one, should the label occur twice); for a label that is not among them
  the lookup raises KeyError and nothing is written for the pair.
\<close>

theorem write_megam_file_first_field:
  "write_megam_file fmt pre encoding st bernoulli explicit bin_stream = (st1, None) \<Longrightarrow>
     (case cost encoding of
        Some c \<Rightarrow>
          (\<exists>rest.
             texts (fst (write_megam_file fmt (pre @ (featureset, label) # post) encoding st
                           bernoulli explicit bin_stream))
               = texts st1
                 @ join '':'' (map (\<lambda>l. str_cost fmt (c featureset label l)) (labels encoding))
                 # rest)
      | None \<Rightarrow>
          if label \<in> set (labels encoding)
          then (\<exists>i rest.
                  i < length (labels encoding) \<and> labels encoding ! i = label
                  \<and> (\<forall>j. i < j \<and> j < length (labels encoding)
                          \<longrightarrow> labels encoding ! j \<noteq> label)
                  \<and> texts (fst (write_megam_file fmt (pre @ (featureset, label) # post)
                                   encoding st bernoulli explicit bin_stream))
                      = texts st1 @ str_nat i # rest)
          else write_megam_file fmt (pre @ (featureset, label) # post) encoding st bernoulli
                 explicit bin_stream = (st1, Some KeyError))"
proof -
  assume pre: "write_megam_file fmt pre encoding st bernoulli explicit bin_stream = (st1, None)"
  note run = write_megam_file_append [OF pre, of "(featureset, label) # post"]
  show ?thesis
  proof (cases "cost encoding")
    case (Some c)
    then have hd: "head_error encoding (featureset, label) = None"
      by (simp add: head_error_def)
    from write_instances_head [OF hd, of fmt post st1 bernoulli explicit]
    show ?thesis
      by (simp add: Some run head_text_cost [OF Some])
  next
    case None
    show ?thesis
    proof (cases "label \<in> set (labels encoding)")
      case True
      with None have hd: "head_error encoding (featureset, label) = None"
        by (simp add: head_error_def)
      from True obtain i where i: "labelnum_of (labels encoding) label = Some i"
        using labelnum_of_None [of "labels encoding" label]
        by (cases "labelnum_of (labels encoding) label") auto
      from write_instances_head [OF hd, of fmt post st1 bernoulli explicit]
      obtain rest where
        "texts (fst (write_megam_file fmt (pre @ (featureset, label) # post) encoding st
                       bernoulli explicit bin_stream)) = texts st1 @ str_nat i # rest"
        by (auto simp: run head_text_index [OF None i])
      with labelnum_of_Some [OF i] True None show ?thesis by auto
    next
      case False
      with None have hd: "head_error encoding (featureset, label) = Some KeyError"
        by (simp add: head_error_def)
      with False None show ?thesis
        by (simp add: run write_instance_head_error)
    qed
  qed
qed

theorem write_megam_file_first_field_witness:
  "(\<exists>rest. texts (fst (write_megam_file example_str [(3, ''b''), (12, ''a'')]
                         example_cost_encoding empty_stream True True False))
       = [''3:0'', '' #'', '' 3'', '' #'', '' 4'', ''\<newline>''] @ ''0:12'' # rest)
   \<and> (\<exists>i rest. i < length (labels example_encoding) \<and> labels example_encoding ! i = ''a''
         \<and> texts (fst (write_megam_file example_str [(3, ''b''), (12, ''a'')]
                          example_encoding empty_stream True True False))
             = [''1'', '' #'', '' 3'', '' #'', '' 4'', ''\<newline>''] @ str_nat i # rest)
   \<and> write_megam_file example_str [(3, ''b''), (12, ''c'')] example_encoding empty_stream
         True True False
       = (\<lparr>bytes_writer = False,
            written = [Str ''1'', Str '' #'', Str '' 3'', Str '' #'', Str '' 4'',
                       Str ''\<newline>'']\<rparr>,
          Some KeyError)
   \<and> texts (fst (write_megam_file example_str [(3, ''b''), (12, ''a'')]
                   example_encoding empty_stream True True False))
       = [''1'', '' #'', '' 3'', '' #'', '' 4'', ''\<newline>'',
          ''0'', '' #'', '' 12'', '' #'', '' 13'', ''\<newline>'']"
proof -
  let ?c1 = "\<lparr>bytes_writer = False,
      written = [Str ''3:0'', Str '' #'', Str '' 3'', Str '' #'', Str '' 4'', Str ''\<newline>'']\<rparr>"
  let ?i1 = "\<lparr>bytes_writer = False,
      written = [Str ''1'', Str '' #'', Str '' 3'', Str '' #'', Str '' 4'', Str ''\<newline>'']\<rparr>"
  have pre_c: "write_megam_file example_str [(3, ''b'')] example_cost_encoding empty_stream
      True True False = (?c1, None)"
    by (simp add: write_eval)
  have pre_i: "write_megam_file example_str [(3, ''b'')] example_encoding empty_stream
      True True False = (?i1, None)"
    by (simp add: write_eval)
  from write_megam_file_first_field
      [OF pre_c, where featureset = 12 and label = "''a''" and post = "[]"]
  have c1: "\<exists>rest. texts (fst (write_megam_file example_str [(3, ''b''), (12, ''a'')]
                         example_cost_encoding empty_stream True True False))
       = [''3:0'', '' #'', '' 3'', '' #'', '' 4'', ''\<newline>''] @ ''0:12'' # rest"
    by (simp add: example_cost_encoding_def example_str_def texts_def str_nat.simps
        digit_char_def)
  have mem: "''a'' \<in> set (labels example_encoding)" "''c'' \<notin> set (labels example_encoding)"
    "cost example_encoding = None"
    by (simp_all add: example_encoding_def)
  from write_megam_file_first_field
      [OF pre_i, where featureset = 12 and label = "''a''" and post = "[]"] mem
  have c2: "\<exists>i rest. i < length (labels example_encoding) \<and> labels example_encoding ! i = ''a''
         \<and> texts (fst (write_megam_file example_str [(3, ''b''), (12, ''a'')]
                          example_encoding empty_stream True True False))
             = [''1'', '' #'', '' 3'', '' #'', '' 4'', ''\<newline>''] @ str_nat i # rest"
    by (auto simp: texts_def)
  from write_megam_file_first_field
      [OF pre_i, where featureset = 12 and label = "''c''" and post = "[]"] mem
  have c3: "write_megam_file example_str [(3, ''b''), (12, ''c'')] example_encoding empty_stream
         True True False = (?i1, Some KeyError)"
    by simp
  have c4: "texts (fst (write_megam_file example_str [(3, ''b''), (12, ''a'')]
                   example_encoding empty_stream True True False))
       = [''1'', '' #'', '' 3'', '' #'', '' 4'', ''\<newline>'',
          ''0'', '' #'', '' 12'', '' #'', '' 13'', ''\<newline>'']"
    by (simp add: write_eval)
  from c1 c2 c3 c4 show ?thesis by blast
qed

subsection \<open>Reading the label index back\<close>

lemma digit_char_code: "d < 10 \<Longrightarrow> of_char (digit_char d) = (48 + d :: nat)"
proof -
  assume "d < 10"
  then have "d = 0 \<or> d = 1 \<or> d = 2 \<or> d = 3 \<or> d = 4 \<or> d = 5 \<or> d = 6 \<or> d = 7
      \<or> d = 8 \<or> d = 9"
    by arith
  then show ?thesis
    by (elim disjE) (simp_all add: digit_char_def)
qed

lemma decimal_single: "is_digit d \<Longrightarrow> decimal [d] = Some (d - 48)"
  by (simp add: decimal_def)

lemma decimal_snoc:
  "decimal ds = Some k \<Longrightarrow> is_digit d \<Longrightarrow> decimal (ds @ [d]) = Some (10 * k + (d - 48))"
  by (auto simp: decimal_def split: if_splits)

lemma decimal_str_nat: "decimal (ustr (str_nat n)) = Some n"
proof (induction n rule: str_nat.induct)
  case (1 n)
  show ?case
  proof (cases "n < 10")
    case True
    then show ?thesis
      by (simp add: str_nat.simps [of n] ustr_def digit_char_code decimal_single is_digit_def)
  next
    case False
    have d: "n mod 10 < 10" by simp
    from False "1.IH" have ih: "decimal (ustr (str_nat (n div 10))) = Some (n div 10)"
      by simp
    have "decimal (ustr (str_nat (n div 10)) @ [48 + n mod 10])
        = Some (10 * (n div 10) + (48 + n mod 10 - 48))"
      by (rule decimal_snoc [OF ih]) (simp add: is_digit_def)
    with False show ?thesis
      by (simp add: str_nat.simps [of n] ustr_def digit_char_code [OF d])
  qed
qed

lemma decimal_ascii_int: "decimal t = Some n \<Longrightarrow> ascii_int t = Some (int n)"
  by (cases t) (auto simp: ascii_int_def decimal_def is_digit_def split: if_splits)

lemma read_int_str_nat: "read_int (str_nat n) = Some (int n)"
  by (simp add: read_int_def decimal_ascii_int [OF decimal_str_nat])

lemma str_nat_no_space: "c \<in> set (str_nat n) \<Longrightarrow> \<not> is_space (of_char c)"
proof -
  assume c: "c \<in> set (str_nat n)"
  from decimal_str_nat [of n] have "list_all is_digit (ustr (str_nat n))"
    by (simp add: decimal_def split: if_splits)
  with c have "is_digit (of_char c)"
    by (auto simp: ustr_def list_all_iff)
  then show ?thesis
    by (auto simp: is_digit_def is_space_def)
qed

lemma str_nat_not_Nil: "str_nat n \<noteq> []"
  using decimal_str_nat [of n] by (auto simp: decimal_def ustr_def split: if_splits)

lemma first_token_prefix:
  "ds \<noteq> [] \<Longrightarrow> \<forall>d \<in> set ds. \<not> is_space (of_char d) \<Longrightarrow> is_space (of_char c) \<Longrightarrow>
     first_token (ds @ c # rest) = ds"
proof -
  assume ne: "ds \<noteq> []" and ns: "\<forall>d \<in> set ds. \<not> is_space (of_char d)"
    and c: "is_space (of_char c)"
  from ne ns have "dropWhile (\<lambda>c. is_space (of_char c)) (ds @ c # rest) = ds @ c # rest"
    by (cases ds) simp_all
  moreover from ns c
  have "takeWhile (\<lambda>c. \<not> is_space (of_char c)) (ds @ c # rest) = ds"
    by (simp add: takeWhile_append2)
  ultimately show ?thesis by (simp add: first_token_def)
qed

lemma concat_space_start:
  "xs \<noteq> [] \<Longrightarrow> \<forall>s \<in> set xs. s \<noteq> [] \<and> is_space (of_char (hd s)) \<Longrightarrow>
     \<exists>c r. concat xs = c # r \<and> is_space (of_char c)"
proof -
  assume "xs \<noteq> []" and all: "\<forall>s \<in> set xs. s \<noteq> [] \<and> is_space (of_char (hd s))"
  then obtain s ss where xs: "xs = s # ss" by (cases xs) auto
  with all obtain c r where "s = c # r" "is_space (of_char c)"
    by (cases s) auto
  with xs show ?thesis by simp
qed

lemma feature_block_space:
  "s \<in> set (feature_block fmt bernoulli vector) \<Longrightarrow> s \<noteq> [] \<and> is_space (of_char (hd s))"
  by (auto simp: feature_block_def is_space_def split: if_splits)

lemma instance_tail_space:
  "s \<in> set (concat (instance_blocks fmt encoding bernoulli explicit tok) @ [''\<newline>'']) \<Longrightarrow>
     s \<noteq> [] \<and> is_space (of_char (hd s))"
proof -
  assume s: "s \<in> set (concat (instance_blocks fmt encoding bernoulli explicit tok)
                        @ [''\<newline>''])"
  obtain featureset label where tok: "tok = (featureset, label)" by (cases tok)
  have sep: "is_space (of_char (hd '' #''))" "is_space (of_char (hd ''\<newline>''))"
    by (simp_all add: is_space_def)
  from s tok consider "s = ''\<newline>''" | "s = '' #''"
    | vector where "s \<in> set (feature_block fmt bernoulli vector)"
    by (auto simp: instance_blocks_def split: if_splits)
  then show ?thesis
  proof cases
    case 1
    with sep show ?thesis by simp
  next
    case 2
    with sep show ?thesis by simp
  next
    case 3
    then show ?thesis by (rule feature_block_space)
  qed
qed

lemma first_token_line:
  "cost encoding = None \<Longrightarrow> labelnum_of (labels encoding) label = Some i \<Longrightarrow>
     first_token (concat (instance_line fmt encoding bernoulli explicit (featureset, label)))
       = str_nat i"
proof -
  assume nc: "cost encoding = None" and i: "labelnum_of (labels encoding) label = Some i"
  let ?tail = "concat (instance_blocks fmt encoding bernoulli explicit (featureset, label))
                 @ [''\<newline>'']"
  have "?tail \<noteq> []" by simp
  from concat_space_start [OF this] instance_tail_space [of _ fmt encoding bernoulli explicit]
  obtain c r where cr: "concat ?tail = c # r" "is_space (of_char c)"
    by blast
  have "concat (instance_line fmt encoding bernoulli explicit (featureset, label))
      = str_nat i @ c # r"
    using cr(1) by (simp add: instance_line_def head_text_index [OF nc i])
  with first_token_prefix [OF str_nat_not_Nil _ cr(2), of i r] str_nat_no_space [of _ i]
  show ?thesis by auto
qed

text \<open>
  Claim C9. For an encoding without a \<open>cost\<close> method and a run of
  \<open>write_megam_file\<close> that returns, the chunks written for a training pair form its
  line, and the first whitespace-delimited token of that line, read as a decimal
  integer, is an index of the pair's label in \<open>encoding.labels()\<close> (its only index
  when the labels are distinct, otherwise the last).
\<close>

theorem label_index_round_trip:
  "cost encoding = None \<Longrightarrow>
   snd (write_megam_file fmt (pre @ (featureset, label) # post) encoding st bernoulli explicit
          bin_stream) = None \<Longrightarrow>
     texts (fst (write_megam_file fmt (pre @ (featureset, label) # post) encoding st bernoulli
                   explicit bin_stream))
       = texts st
         @ concat (map (instance_line fmt encoding bernoulli explicit) pre)
         @ instance_line fmt encoding bernoulli explicit (featureset, label)
         @ concat (map (instance_line fmt encoding bernoulli explicit) post)
     \<and> (\<exists>i. i < length (labels encoding) \<and> labels encoding ! i = label
            \<and> (\<forall>j. i < j \<and> j < length (labels encoding) \<longrightarrow> labels encoding ! j \<noteq> label)
            \<and> read_int (first_token (concat (instance_line fmt encoding bernoulli explicit
                                                 (featureset, label))))
                = Some (int i))"
proof -
  assume nc: "cost encoding = None"
    and "snd (write_megam_file fmt (pre @ (featureset, label) # post) encoding st bernoulli
               explicit bin_stream) = None"
  then have ok: "first_error (concat (map (instance_errors encoding bernoulli explicit)
                                        (pre @ (featureset, label) # post))) = None"
    by (simp add: write_megam_file_error)
  from write_megam_file_ok [OF ok, of fmt st bin_stream]
  have out: "texts (fst (write_megam_file fmt (pre @ (featureset, label) # post) encoding st
                           bernoulli explicit bin_stream))
       = texts st
         @ concat (map (instance_line fmt encoding bernoulli explicit) pre)
         @ instance_line fmt encoding bernoulli explicit (featureset, label)
         @ concat (map (instance_line fmt encoding bernoulli explicit) post)"
    by simp
  from ok have "head_error encoding (featureset, label) = None"
    by (simp add: first_error_None instance_errors_def)
  with nc have "label \<in> set (labels encoding)"
    by (simp add: head_error_def split: if_splits)
  then obtain i where i: "labelnum_of (labels encoding) label = Some i"
    using labelnum_of_None [of "labels encoding" label]
    by (cases "labelnum_of (labels encoding) label") auto
  have "read_int (first_token (concat (instance_line fmt encoding bernoulli explicit
                                         (featureset, label)))) = Some (int i)"
    by (simp add: first_token_line [OF nc i] read_int_str_nat)
  with labelnum_of_Some [OF i] out show ?thesis by blast
qed

theorem label_index_round_trip_witness:
  "cost example_encoding = None
   \<and> snd (write_megam_file example_str ([(3, ''a'')] @ (12, ''b'') # [(5, ''a'')])
            example_encoding empty_stream True False False) = None
   \<and> texts (fst (write_megam_file example_str ([(3, ''a'')] @ (12, ''b'') # [(5, ''a'')])
                   example_encoding empty_stream True False False))
       = [''0'', '' 3'', ''\<newline>'', ''1'', '' 13'', ''\<newline>'', ''0'', '' 5'', ''\<newline>'']
   \<and> instance_line example_str example_encoding True False (12, ''b'')
       = [''1'', '' 13'', ''\<newline>'']
   \<and> (\<exists>i. i < length (labels example_encoding) \<and> labels example_encoding ! i = ''b''
          \<and> read_int (first_token (concat [''1'', '' 13'', ''\<newline>''])) = Some (int i))
   \<and> read_int (first_token (concat [''1'', '' 13'', ''\<newline>''])) = Some 1
   \<and> labels example_encoding ! 1 = ''b''"
proof -
  let ?pre = "[(3::nat, ''a'')]" and ?post = "[(5::nat, ''a'')]"
  have nc: "cost example_encoding = None"
    by (simp add: example_encoding_def)
  have ok: "snd (write_megam_file example_str (?pre @ (12, ''b'') # ?post)
            example_encoding empty_stream True False False) = None"
    by (simp add: write_eval)
  have line: "instance_line example_str example_encoding True False (12, ''b'')
       = [''1'', '' 13'', ''\<newline>'']"
    by (simp add: line_eval instance_head_def labelnum_of_def str_nat.simps digit_char_def
        example_encoding_def example_encode_def example_str_def)
  have lines: "instance_line example_str example_encoding True False (3, ''a'')
       = [''0'', '' 3'', ''\<newline>'']"
    "instance_line example_str example_encoding True False (5, ''a'')
       = [''0'', '' 5'', ''\<newline>'']"
    by (simp_all add: line_eval instance_head_def labelnum_of_def str_nat.simps digit_char_def
        example_encoding_def example_encode_def example_str_def)
  note rt = label_index_round_trip [OF nc ok]
  from rt have "texts (fst (write_megam_file example_str (?pre @ (12, ''b'') # ?post)
                   example_encoding empty_stream True False False))
       = texts empty_stream
         @ concat (map (instance_line example_str example_encoding True False) ?pre)
         @ instance_line example_str example_encoding True False (12, ''b'')
         @ concat (map (instance_line example_str example_encoding True False) ?post)"
    by blast
  also have "\<dots> = [''0'', '' 3'', ''\<newline>'', ''1'', '' 13'', ''\<newline>'',
                    ''0'', '' 5'', ''\<newline>'']"
    by (simp add: line lines texts_def empty_stream_def)
  finally have c3: "texts (fst (write_megam_file example_str (?pre @ (12, ''b'') # ?post)
                   example_encoding empty_stream True False False))
       = [''0'', '' 3'', ''\<newline>'', ''1'', '' 13'', ''\<newline>'', ''0'', '' 5'', ''\<newline>'']" .
  from rt obtain i where "i < length (labels example_encoding)"
    "labels example_encoding ! i = ''b''"
    "read_int (first_token (concat (instance_line example_str example_encoding True False
                                      (12, ''b'')))) = Some (int i)"
    by blast
  then have c5: "\<exists>i. i < length (labels example_encoding)
          \<and> labels example_encoding ! i = ''b''
          \<and> read_int (first_token (concat [''1'', '' 13'', ''\<newline>''])) = Some (int i)"
    unfolding line by blast
  have c6: "read_int (first_token (concat [''1'', '' 13'', ''\<newline>''])) = Some 1"
    by (simp add: read_int_def first_token_def text_eval num_eval)
  have c7: "labels example_encoding ! 1 = ''b''"
    by (simp add: example_encoding_def)
  from nc ok c3 line c5 c6 c7 show ?thesis by blast
qed

subsection \<open>Configuring and calling the binary\<close>

lemmas call_eval = call_megam_def config_megam_def communicate_def inherit_stderr_def
  str_opt_def print_def example_world_def example_find_def example_popen_def

text \<open>
  Claim C8. For an argument that is a single string, \<open>call_megam\<close> raises TypeError
  and leaves the state as it was: \<open>_megam_bin\<close> is neither read into a command nor
  set, \<open>find_binary\<close> is not called and no child process is started.
\<close>

theorem call_megam_string_argument:
  "call_megam find_binary popen (StrArg s) w = (w, Inl TypeError)"
  by (simp add: call_megam_def)

text \<open>
  Claim C10. When \<open>find_binary\<close> raises, \<open>config_megam\<close> raises the same error and
  \<open>_megam_bin\<close> keeps its value: a path set by an earlier call that succeeded is
  still there after the call that failed, and an unset \<open>_megam_bin\<close> stays unset,
  also when the configuration is the one that \<open>call_megam\<close> starts by itself (no
  child process is started then).
\<close>

theorem config_megam_failure_keeps_path:
  "(snd (find_binary bin) = Inl e \<longrightarrow>
      snd (config_megam find_binary bin w) = Inl e
      \<and> megam_bin (fst (config_megam find_binary bin w)) = megam_bin w)
   \<and> (snd (find_binary' bin') = Inr path \<longrightarrow> snd (find_binary bin) = Inl e \<longrightarrow>
      megam_bin (fst (config_megam find_binary bin (fst (config_megam find_binary' bin' w))))
        = Some path)
   \<and> (megam_bin w = None \<longrightarrow> snd (find_binary None) = Inl e \<longrightarrow>
      snd (call_megam find_binary popen (ListArg as) w) = Inl e
      \<and> megam_bin (fst (call_megam find_binary popen (ListArg as) w)) = None
      \<and> spawned (fst (call_megam find_binary popen (ListArg as) w)) = spawned w)"
  by (auto simp: config_megam_def call_megam_def Let_def split: prod.splits)

theorem config_megam_failure_keeps_path_witness:
  "snd (example_find (Some ''/nope'')) = Inl LookupError
   \<and> snd (example_find (Some ''/opt/megam'')) = Inr ''/opt/megam''
   \<and> snd (config_megam example_find (Some ''/nope'') example_world) = Inl LookupError
   \<and> megam_bin (fst (config_megam example_find (Some ''/nope'') example_world))
       = Some ''/opt/megam''
   \<and> megam_bin (fst (config_megam example_find (Some ''/nope'')
                        (fst (config_megam example_find (Some ''/opt/megam'')
                               (example_world\<lparr>megam_bin := None\<rparr>)))))
       = Some ''/opt/megam''
   \<and> snd (call_megam (\<lambda>bin. ([], Inl LookupError)) example_popen (ListArg [''-bad''])
            (example_world\<lparr>megam_bin := None\<rparr>)) = Inl LookupError
   \<and> megam_bin (fst (call_megam (\<lambda>bin. ([], Inl LookupError)) example_popen
                        (ListArg [''-bad'']) (example_world\<lparr>megam_bin := None\<rparr>))) = None
   \<and> spawned (fst (call_megam (\<lambda>bin. ([], Inl LookupError)) example_popen
                      (ListArg [''-bad'']) (example_world\<lparr>megam_bin := None\<rparr>))) = []"
proof -
  have f1: "snd (example_find (Some ''/nope'')) = Inl LookupError"
    and f2: "snd (example_find (Some ''/opt/megam'')) = Inr ''/opt/megam''"
    by (simp_all add: example_find_def)
  have f3: "snd ((\<lambda>bin. ([], Inl LookupError)) (None :: string option))
      = (Inl LookupError :: error + string)"
    by simp
  have w: "megam_bin example_world = Some ''/opt/megam''"
    "megam_bin (example_world\<lparr>megam_bin := None\<rparr>) = None"
    "spawned (example_world\<lparr>megam_bin := None\<rparr>) = []"
    by (simp_all add: example_world_def)
  note a = config_megam_failure_keeps_path
      [where find_binary = example_find and bin = "Some ''/nope''" and e = LookupError
         and w = example_world]
  note b = config_megam_failure_keeps_path
      [where find_binary = example_find and bin = "Some ''/nope''" and e = LookupError
         and find_binary' = example_find and bin' = "Some ''/opt/megam''"
         and path = "''/opt/megam''" and w = "example_world\<lparr>megam_bin := None\<rparr>"]
  note c = config_megam_failure_keeps_path
      [where find_binary = "\<lambda>bin. ([], Inl LookupError)" and e = LookupError
         and w = "example_world\<lparr>megam_bin := None\<rparr>" and popen = example_popen
         and as = "[''-bad'']"]
  from a f1 w(1) have c1: "snd (config_megam example_find (Some ''/nope'') example_world)
      = Inl LookupError"
    "megam_bin (fst (config_megam example_find (Some ''/nope'') example_world))
       = Some ''/opt/megam''"
    by simp_all
  from b f1 f2 have c2: "megam_bin (fst (config_megam example_find (Some ''/nope'')
                        (fst (config_megam example_find (Some ''/opt/megam'')
                               (example_world\<lparr>megam_bin := None\<rparr>)))))
       = Some ''/opt/megam''"
    by blast
  from c f3 w(2,3) have c3:
    "snd (call_megam (\<lambda>bin. ([], Inl LookupError)) example_popen (ListArg [''-bad''])
            (example_world\<lparr>megam_bin := None\<rparr>)) = Inl LookupError"
    "megam_bin (fst (call_megam (\<lambda>bin. ([], Inl LookupError)) example_popen
                        (ListArg [''-bad'']) (example_world\<lparr>megam_bin := None\<rparr>))) = None"
    "spawned (fst (call_megam (\<lambda>bin. ([], Inl LookupError)) example_popen
                      (ListArg [''-bad'']) (example_world\<lparr>megam_bin := None\<rparr>))) = []"
    by simp_all
  from f1 f2 c1 c2 c3 show ?thesis by blast
qed

text \<open>
  Claim C7, as stated, fails: the child below writes \<open>boom\<close> to its standard error
  and exits with code 1. \<open>call_megam\<close> raises OSError, but it captures no standard
  error (\<open>communicate\<close> gives \<open>None\<close> for it), and what it prints goes to the standard
  output of the caller: an empty line and the line \<open>None\<close>. The error stream of the
  caller holds nothing that \<open>call_megam\<close> printed, only what the child itself wrote
  to the stream it inherited.
\<close>

theorem call_megam_stderr_counterexample:
  "example_popen [''/opt/megam'', ''-bad'']
     = Inr \<lparr>child_stdout = ''partial'', child_stderr = ''boom'', returncode = 1\<rparr>
   \<and> communicate \<lparr>child_stdout = ''partial'', child_stderr = ''boom'', returncode = 1\<rparr>
     = (Some ''partial'', None)
   \<and> call_megam example_find example_popen (ListArg [''-bad'']) example_world
     = (\<lparr>megam_bin = Some ''/opt/megam'',
         sys_stdout = [Printed '''', Printed ''None''],
         sys_stderr = [Inherited ''boom''],
         resolutions = [], spawned = [[''/opt/megam'', ''-bad'']]\<rparr>,
        Inl OSError)"
  by (simp add: call_eval)

text \<open>
  Claim C7, amended. With the binary resolved (already configured, or found by the
  configuration that \<open>call_megam\<close> starts, which prints the lines of \<open>find_binary\<close>
  to the standard output) and the child process run to its end: when the child exits
  with a code other than zero, \<open>call_megam\<close> prints two more lines to the standard
  output of the caller, the first of them empty, prints nothing to the error stream
  of the caller, which receives what the child wrote to its inherited standard error
  and nothing else, and raises OSError, returning no result; when the child exits
  with code zero, \<open>call_megam\<close> prints nothing of its own and returns the captured
  standard output of the child as it is.
\<close>

theorem call_megam_exit_code:
  "(megam_bin w = Some b \<and> found = [])
     \<or> (megam_bin w = None \<and> find_binary None = (found, Inr b)) \<Longrightarrow>
   popen (b # as) = Inr p \<Longrightarrow>
     (returncode p \<noteq> 0 \<longrightarrow>
        snd (call_megam find_binary popen (ListArg as) w) = Inl OSError
        \<and> sys_stderr (fst (call_megam find_binary popen (ListArg as) w))
            = sys_stderr w @ [Inherited (child_stderr p)]
        \<and> (\<exists>line. sys_stdout (fst (call_megam find_binary popen (ListArg as) w))
                     = sys_stdout w @ map Printed found @ [Printed '''', Printed line]))
     \<and> (returncode p = 0 \<longrightarrow>
        snd (call_megam find_binary popen (ListArg as) w) = Inr (Some (child_stdout p))
        \<and> sys_stderr (fst (call_megam find_binary popen (ListArg as) w))
            = sys_stderr w @ [Inherited (child_stderr p)]
        \<and> sys_stdout (fst (call_megam find_binary popen (ListArg as) w))
            = sys_stdout w @ map Printed found)"
  by (auto simp: call_megam_def config_megam_def communicate_def inherit_stderr_def print_def)

theorem call_megam_exit_code_witness:
  "megam_bin example_world = Some ''/opt/megam''
   \<and> snd (call_megam example_find example_popen (ListArg [''-bad'']) example_world) = Inl OSError
   \<and> sys_stderr (fst (call_megam example_find example_popen (ListArg [''-bad''])
                         example_world)) = [Inherited ''boom'']
   \<and> (\<exists>line. sys_stdout (fst (call_megam example_find example_popen (ListArg [''-bad''])
                                 example_world)) = [Printed '''', Printed line])
   \<and> call_megam example_find example_popen (ListArg [''train.txt''])
         (example_world\<lparr>megam_bin := None\<rparr>)
       = (\<lparr>megam_bin = Some ''/usr/bin/megam'',
            sys_stdout = [Printed ''[Found megam: /usr/bin/megam]''],
            sys_stderr = [Inherited ''warning''],
            resolutions = [None], spawned = [[''/usr/bin/megam'', ''train.txt'']]\<rparr>,
          Inr (Some ''0 0.5''))
   \<and> snd (call_megam example_find example_popen (ListArg [''train.txt''])
            (example_world\<lparr>megam_bin := None\<rparr>)) = Inr (Some ''0 0.5'')
   \<and> sys_stdout (fst (call_megam example_find example_popen (ListArg [''train.txt''])
                         (example_world\<lparr>megam_bin := None\<rparr>)))
       = [Printed ''[Found megam: /usr/bin/megam]'']"
proof -
  let ?bad = "\<lparr>child_stdout = ''partial'', child_stderr = ''boom'', returncode = 1\<rparr>"
  let ?good = "\<lparr>child_stdout = ''0 0.5'', child_stderr = ''warning'', returncode = 0\<rparr>"
  let ?w0 = "example_world\<lparr>megam_bin := None\<rparr>"
  let ?found = "[''[Found megam: /usr/bin/megam]'']"
  have w: "megam_bin example_world = Some ''/opt/megam''"
    "sys_stderr example_world = []" "sys_stdout example_world = []"
    "sys_stdout ?w0 = []"
    by (simp_all add: example_world_def)
  have h1: "(megam_bin example_world = Some ''/opt/megam'' \<and> ([] :: string list) = [])
      \<or> (megam_bin example_world = None
          \<and> example_find None = ([], Inr ''/opt/megam''))"
    using w(1) by simp
  have h2: "(megam_bin ?w0 = Some ''/usr/bin/megam'' \<and> ?found = [])
      \<or> (megam_bin ?w0 = None \<and> example_find None = (?found, Inr ''/usr/bin/megam''))"
    by (simp add: example_find_def)
  have p1: "example_popen (''/opt/megam'' # [''-bad'']) = Inr ?bad"
    and p2: "example_popen (''/usr/bin/megam'' # [''train.txt'']) = Inr ?good"
    by (simp_all add: example_popen_def)
  have r: "returncode ?bad \<noteq> 0" "returncode ?good = 0" "child_stdout ?good = ''0 0.5''"
    "child_stderr ?bad = ''boom''"
    by simp_all
  from call_megam_exit_code
      [where w = example_world and find_binary = example_find and popen = example_popen,
       OF h1 p1]
    r(1,4) w(2,3)
  have c1: "snd (call_megam example_find example_popen (ListArg [''-bad'']) example_world)
      = Inl OSError"
    "sys_stderr (fst (call_megam example_find example_popen (ListArg [''-bad''])
                         example_world)) = [Inherited ''boom'']"
    "\<exists>line. sys_stdout (fst (call_megam example_find example_popen (ListArg [''-bad''])
                                 example_world)) = [Printed '''', Printed line]"
    by simp_all
  from call_megam_exit_code
      [where w = ?w0 and find_binary = example_find and popen = example_popen, OF h2 p2]
    r(2,3) w(4)
  have c2: "snd (call_megam example_find example_popen (ListArg [''train.txt'']) ?w0)
      = Inr (Some ''0 0.5'')"
    "sys_stdout (fst (call_megam example_find example_popen (ListArg [''train.txt'']) ?w0))
      = [Printed ''[Found megam: /usr/bin/megam]'']"
    by simp_all
  have c3: "call_megam example_find example_popen (ListArg [''train.txt'']) ?w0
       = (\<lparr>megam_bin = Some ''/usr/bin/megam'',
            sys_stdout = [Printed ''[Found megam: /usr/bin/megam]''],
            sys_stderr = [Inherited ''warning''],
            resolutions = [None], spawned = [[''/usr/bin/megam'', ''train.txt'']]\<rparr>,
          Inr (Some ''0 0.5''))"
    by (simp add: call_eval)
  from w(1) c1 c2 c3 show ?thesis by blast
qed

end
